theory Spec2Isabelle
  imports Main "HOL-Library.Sublist"
begin

section \<open>The input: the output AST of the Angular compiler\<close>

text \<open>
  The translator of \<^verbatim>\<open>packages/compiler-cli/src/ngtsc/translator/src/translator.ts\<close>
  turns statements and expressions of the Angular compiler's output AST
  (\<^verbatim>\<open>@angular/compiler\<close>) into TypeScript AST nodes. The classes of the input are
  imported by the file, so they are modelled here by the fields and methods the
  translator reads.
\<close>

record ParseSourceFile =
  content :: string
  url :: string

record ParseLocation =
  "file" :: ParseSourceFile
  offset :: nat

record ParseSourceSpan =
  start :: ParseLocation
  endLoc :: ParseLocation

text \<open>The result of \<^verbatim>\<open>serializeI18nHead()\<close> and \<^verbatim>\<open>serializeI18nTemplatePart(i)\<close>.\<close>

record CookedRaw =
  cooked :: string
  raw :: string

text \<open>
  What the translator reads of a \<^verbatim>\<open>LocalizedString\<close> beside its expressions and its own
  span: the number of message parts and four methods of the class. The class is declared in
  \<^verbatim>\<open>@angular/compiler/src/output/output_ast\<close>, so the methods are fields here: any
  implementation of them is an instance.
\<close>

record I18nMessage =
  messageParts_length :: nat
  serializeI18nHead :: CookedRaw
  serializeI18nTemplatePart :: "nat \<Rightarrow> CookedRaw"
  getMessagePartSourceSpan :: "nat \<Rightarrow> ParseSourceSpan option"
  getPlaceholderSourceSpan :: "nat \<Rightarrow> ParseSourceSpan option"

text \<open>
  A \<^verbatim>\<open>LeadingComment\<close>, a class of
  \<^verbatim>\<open>@angular/compiler/src/output/output_ast\<close> with the three fields \<^verbatim>\<open>text\<close>,
  \<^verbatim>\<open>multiline\<close> and \<^verbatim>\<open>trailingNewline\<close> and the method \<^verbatim>\<open>toString()\<close>, which
  a subclass may override (\<^verbatim>\<open>JSDocComment\<close> does, with the serialization of its tags).
  \<open>toStringOverride\<close> is \<open>None\<close> for an object of the class itself, and the result of the
  overriding method for an object of such a subclass.
\<close>

record LeadingComment =
  "text" :: string
  multiline :: bool
  trailingNewline :: bool
  toStringOverride :: "string option"

text \<open>
  \<^verbatim>\<open>LeadingComment.toString()\<close>: the class gives the text of a multiline comment with a
  space before it and a space after it, and the text of another comment as it is.
\<close>

definition toString :: "LeadingComment \<Rightarrow> string" where
  "toString c =
     (case toStringOverride c of
        Some t \<Rightarrow> t
      | None \<Rightarrow> if multiline c then '' '' @ text c @ '' '' else text c)"

datatype StmtModifier = Final | Private | Exported | Static

text \<open>
  The operator enumerations are imported. The members the operator tables name are
  constructors; any other value of the enumeration is \<open>OtherUnary\<close> or \<open>OtherBinary\<close>,
  carrying the name the reverse mapping \<^verbatim>\<open>UnaryOperator[op]\<close> gives.
\<close>

datatype UnaryOperator = UMinus | UPlus | OtherUnary string

datatype BinaryOperator =
    And | Bigger | BiggerEquals | BitwiseAnd | Divide | Equals | Identical | Lower
  | LowerEquals | Minus | Modulo | Multiply | NotEquals | NotIdentical | Or | Plus
  | OtherBinary string

text \<open>
  The value of a \<^verbatim>\<open>LiteralExpr\<close>: \<^verbatim>\<open>undefined\<close>, \<^verbatim>\<open>null\<close>, or a string, a number
  (carried as its decimal text) or a boolean.
\<close>

datatype Primitive = PString string | PNumber string | PBoolean bool

datatype LiteralValue = LUndefined | LNull | LPrimitive Primitive

record ExternalReference =
  moduleName :: "string option"
  name :: "string option"

section \<open>The output: TypeScript nodes\<close>

text \<open>
  The members of \<^verbatim>\<open>ts.SyntaxKind\<close> the translator names, and those the parenthesizer
  rules of the library look for in a node of this model: the comma operator and the kinds
  of literal (\<open>Unknown\<close> is the kind that is none).
\<close>

datatype SyntaxKind =
    Unknown
  | MinusToken | PlusToken | AmpersandAmpersandToken | GreaterThanToken
  | GreaterThanEqualsToken | AmpersandToken | SlashToken | EqualsEqualsToken
  | EqualsEqualsEqualsToken | LessThanToken | LessThanEqualsToken | PercentToken
  | AsteriskToken | ExclamationEqualsToken | ExclamationEqualsEqualsToken | BarBarToken
  | EqualsToken | ExclamationToken | CommaToken
  | NumericLiteral | StringLiteral | NoSubstitutionTemplateLiteral
  | MultiLineCommentTrivia | SingleLineCommentTrivia

datatype NodeFlags = NoFlags | Let | Const

text \<open>
  \<^verbatim>\<open>ts.ScriptTarget\<close> without \<^verbatim>\<open>JSON\<close>, which the type of the entry points excludes,
  with its numeric values.
\<close>

datatype ScriptTarget =
  ES3 | ES5 | ES2015 | ES2016 | ES2017 | ES2018 | ES2019 | ES2020 | ESNext

fun targetValue :: "ScriptTarget \<Rightarrow> nat" where
  "targetValue ES3 = 0"
| "targetValue ES5 = 1"
| "targetValue ES2015 = 2"
| "targetValue ES2016 = 3"
| "targetValue ES2017 = 4"
| "targetValue ES2018 = 5"
| "targetValue ES2019 = 6"
| "targetValue ES2020 = 7"
| "targetValue ESNext = 99"

text \<open>The reverse mapping \<^verbatim>\<open>ts.ScriptTarget[t]\<close>; 99 names both ESNext and Latest.\<close>

fun targetName :: "ScriptTarget \<Rightarrow> string" where
  "targetName ES3 = ''ES3''"
| "targetName ES5 = ''ES5''"
| "targetName ES2015 = ''ES2015''"
| "targetName ES2016 = ''ES2016''"
| "targetName ES2017 = ''ES2017''"
| "targetName ES2018 = ''ES2018''"
| "targetName ES2019 = ''ES2019''"
| "targetName ES2020 = ''ES2020''"
| "targetName ESNext = ''Latest''"

text \<open>\<^verbatim>\<open>ts.createSourceMapSource(url, content, pos => pos)\<close>.\<close>

record SourceMapSource =
  fileName :: string
  sourceText :: string

record SourceMapRange =
  pos :: nat
  endPos :: nat
  source :: "SourceMapSource option"

record SynthesizedComment =
  kind :: SyntaxKind
  commentText :: string
  hasTrailingNewLine :: bool

text \<open>
  A node is its kind with its children (\<open>shape\<close>), the range
  \<^verbatim>\<open>ts.setSourceMapRange\<close> last gave it, and the comments
  \<^verbatim>\<open>ts.addSyntheticLeadingComment\<close> added to it, in order. The kinds are those the
  translator builds; a node that comes in a \<^verbatim>\<open>WrappedNodeExpr\<close> is of these kinds too.
\<close>

datatype tsNode =
  Node (shape: tsShape) (sourceMapRange: "SourceMapRange option")
       (leadingComments: "SynthesizedComment list")
and tsShape =
    TsIdentifier string
  | TsBinary tsNode SyntaxKind tsNode
  | TsParen tsNode
  | TsElementAccess tsNode tsNode
  | TsPropertyAccess tsNode tsNode
  | TsCall tsNode "tsNode list"
  | TsNew tsNode "tsNode list"
  | TsNull
  | TsLiteral Primitive
  | TsConditional tsNode tsNode tsNode
  | TsPrefix SyntaxKind tsNode
  | TsTypeOf tsNode
  | TsParameter string
  | TsBlock "tsNode list"
  | TsFunctionExpression "string option" "tsNode list" tsNode
  | TsArrayLiteral "tsNode list"
  | TsPropertyAssignment tsNode tsNode
  | TsObjectLiteral "tsNode list"
  | TsNoSubstitutionTemplateLiteral string string
  | TsTemplateHead string string
  | TsTemplateMiddle string string
  | TsTemplateTail string string
  | TsTemplateSpan tsNode tsNode
  | TsTemplateExpression tsNode "tsNode list"
  | TsTaggedTemplate tsNode tsNode
  | TsVariableDeclaration string "tsNode option"
  | TsVariableDeclarationList "tsNode list" NodeFlags
  | TsVariableStatement tsNode
  | TsFunctionDeclaration string "tsNode list" tsNode
  | TsExpressionStatement tsNode
  | TsReturn tsNode
  | TsIf tsNode tsNode "tsNode option"
  | TsThrow tsNode

section \<open>Expressions and statements\<close>

text \<open>
  Every expression carries \<^verbatim>\<open>sourceSpan: ParseSourceSpan|null\<close>, every statement
  \<^verbatim>\<open>leadingComments?: LeadingComment[]\<close>. Of a class statement and a function
  parameter only the name is read. A read-variable expression has its name:
  \<^verbatim>\<open>visitReadVarExpr\<close> asserts it non-null. A null method name, a null false case, a
  missing initializer and the null names of an external reference are \<open>None\<close>.
\<close>

datatype Expression =
    ReadVarExpr string "ParseSourceSpan option"
  | WriteVarExpr string Expression "ParseSourceSpan option"
  | WriteKeyExpr Expression Expression Expression "ParseSourceSpan option"
  | WritePropExpr Expression string Expression "ParseSourceSpan option"
  | InvokeMethodExpr Expression "string option" "Expression list" "ParseSourceSpan option"
  | InvokeFunctionExpr Expression "Expression list" bool "ParseSourceSpan option"
  | InstantiateExpr Expression "Expression list" "ParseSourceSpan option"
  | LiteralExpr LiteralValue "ParseSourceSpan option"
  | LocalizedString I18nMessage "Expression list" "ParseSourceSpan option"
  | ExternalExpr ExternalReference "ParseSourceSpan option"
  | ConditionalExpr Expression Expression "Expression option" "ParseSourceSpan option"
  | NotExpr Expression "ParseSourceSpan option"
  | AssertNotNull Expression "ParseSourceSpan option"
  | CastExpr Expression "ParseSourceSpan option"
  | FunctionExpr "string option" "string list" "Statement list" "ParseSourceSpan option"
  | UnaryOperatorExpr UnaryOperator Expression "ParseSourceSpan option"
  | BinaryOperatorExpr BinaryOperator Expression Expression "ParseSourceSpan option"
  | ReadPropExpr Expression string "ParseSourceSpan option"
  | ReadKeyExpr Expression Expression "ParseSourceSpan option"
  | LiteralArrayExpr "Expression list" "ParseSourceSpan option"
  | LiteralMapExpr "LiteralMapEntry list" "ParseSourceSpan option"
  | CommaExpr "Expression list" "ParseSourceSpan option"
  | WrappedNodeExpr tsNode "ParseSourceSpan option"
  | TypeofExpr Expression "ParseSourceSpan option"
and LiteralMapEntry =
    LiteralMapEntry (key: string) (entryValue: Expression) (quoted: bool)
and Statement =
    DeclareVarStmt string "Expression option" "StmtModifier list" "LeadingComment list option"
  | DeclareFunctionStmt string "string list" "Statement list" "LeadingComment list option"
  | ExpressionStatement Expression "LeadingComment list option"
  | ReturnStatement Expression "LeadingComment list option"
  | ClassStmt string "LeadingComment list option"
  | IfStmt Expression "Statement list" "Statement list" "LeadingComment list option"
  | TryCatchStmt "Statement list" "Statement list" "LeadingComment list option"
  | ThrowStmt Expression "LeadingComment list option"

section \<open>Failures, collaborators and the visitor's state\<close>

text \<open>
  \<open>Error\<close> is a \<^verbatim>\<open>throw new Error(message)\<close> of the translator; \<open>TypeError\<close> is what
  JavaScript raises when a method is called on \<^verbatim>\<open>undefined\<close> or \<^verbatim>\<open>null\<close>.
\<close>

datatype error = Error string | TypeError

record NamedImport =
  moduleImport :: "string option"
  symbol :: string

text \<open>
  The import manager is a collaborator with a state of its own, declared outside this file.
  It is a parameter: a function from the calls \<^verbatim>\<open>generateNamedImport\<close> has received so
  far in this run, the module name and the symbol name to its answer.
\<close>

type_synonym ImportManager = "(string \<times> string) list \<Rightarrow> string \<Rightarrow> string \<Rightarrow> NamedImport"

text \<open>
  \<open>externalSourceFiles\<close> is the visitor's private \<^verbatim>\<open>Map\<close>, in insertion order;
  \<open>importCalls\<close> are the calls made to \<^verbatim>\<open>imports.generateNamedImport\<close> and
  \<open>usedIdentifiers\<close> the nodes given to \<^verbatim>\<open>defaultImportRecorder.recordUsedIdentifier\<close>,
  oldest first.
\<close>

record VisitorState =
  externalSourceFiles :: "(string \<times> SourceMapSource) list"
  importCalls :: "(string \<times> string) list"
  usedIdentifiers :: "tsNode list"

text \<open>
  A method of the visitor takes the state and gives a node or a thrown error, and the state
  it leaves. A throw keeps the effects that came before it.
\<close>

type_synonym 'a visit = "VisitorState \<Rightarrow> (error + 'a) \<times> VisitorState"

definition ok :: "'a \<Rightarrow> 'a visit" where
  "ok a = (\<lambda>s. (Inr a, s))"

definition throw :: "error \<Rightarrow> 'a visit" where
  "throw e = (\<lambda>s. (Inl e, s))"

definition andThen :: "'a visit \<Rightarrow> ('a \<Rightarrow> 'b visit) \<Rightarrow> 'b visit" where
  "andThen m f = (\<lambda>s. case m s of (Inl e, s') \<Rightarrow> (Inl e, s') | (Inr a, s') \<Rightarrow> f a s')"

definition generateNamedImport :: "ImportManager \<Rightarrow> string \<Rightarrow> string \<Rightarrow> NamedImport visit" where
  "generateNamedImport imports m n =
     (\<lambda>s. (Inr (imports (importCalls s) m n), s\<lparr>importCalls := importCalls s @ [(m, n)]\<rparr>))"

definition recordUsedIdentifier :: "tsNode \<Rightarrow> unit visit" where
  "recordUsedIdentifier node =
     (\<lambda>s. (Inr (), s\<lparr>usedIdentifiers := usedIdentifiers s @ [node]\<rparr>))"

text \<open>
  Modelled from the spec: the class \<^verbatim>\<open>Context\<close> of \<^verbatim>\<open>./context\<close>, which is not in this
  file. It carries one bit, \<open>isStatement\<close>; \<open>withStatementMode\<close> and \<open>withExpressionMode\<close>
  give a context with the bit set and cleared.
\<close>

datatype Context = Context (isStatement: bool)

definition withStatementMode :: "Context \<Rightarrow> Context" where
  "withStatementMode c = Context True"

definition withExpressionMode :: "Context \<Rightarrow> Context" where
  "withExpressionMode c = Context False"

section \<open>The TypeScript factory functions\<close>

text \<open>
  The factory functions belong to the TypeScript library. Each makes a new node, without
  range and comments, and those that take operands put an operand in parentheses where the
  parenthesizer rules of the library (\<^verbatim>\<open>createParenthesizerRules\<close>, with the precedence
  tables of \<^verbatim>\<open>getOperatorPrecedence\<close>) ask for it. The rules are given here for the
  kinds of node of \<open>tsShape\<close> and the operators of \<open>SyntaxKind\<close>: what they say of other
  kinds (arrow functions, \<^verbatim>\<open>yield\<close>, optional chains, a \<^verbatim>\<open>new\<close> without argument
  list, the operator \<^verbatim>\<open>??\<close>) is left out. Any other kind of node has no precedence
  (\<open>-1\<close>).
\<close>

abbreviation ts_createIdentifier :: "string \<Rightarrow> tsNode" where
  "ts_createIdentifier t \<equiv> Node (TsIdentifier t) None []"

abbreviation ts_createParen :: "tsNode \<Rightarrow> tsNode" where
  "ts_createParen e \<equiv> Node (TsParen e) None []"

subsection \<open>Precedence and associativity\<close>

datatype Associativity = Left | Right

fun getBinaryOperatorPrecedence :: "SyntaxKind \<Rightarrow> int" where
  "getBinaryOperatorPrecedence BarBarToken = 5"
| "getBinaryOperatorPrecedence AmpersandAmpersandToken = 6"
| "getBinaryOperatorPrecedence AmpersandToken = 9"
| "getBinaryOperatorPrecedence EqualsEqualsToken = 10"
| "getBinaryOperatorPrecedence ExclamationEqualsToken = 10"
| "getBinaryOperatorPrecedence EqualsEqualsEqualsToken = 10"
| "getBinaryOperatorPrecedence ExclamationEqualsEqualsToken = 10"
| "getBinaryOperatorPrecedence LessThanToken = 11"
| "getBinaryOperatorPrecedence GreaterThanToken = 11"
| "getBinaryOperatorPrecedence LessThanEqualsToken = 11"
| "getBinaryOperatorPrecedence GreaterThanEqualsToken = 11"
| "getBinaryOperatorPrecedence PlusToken = 13"
| "getBinaryOperatorPrecedence MinusToken = 13"
| "getBinaryOperatorPrecedence AsteriskToken = 14"
| "getBinaryOperatorPrecedence SlashToken = 14"
| "getBinaryOperatorPrecedence PercentToken = 14"
| "getBinaryOperatorPrecedence k = -1"

text \<open>\<^verbatim>\<open>getOperatorPrecedence(SyntaxKind.BinaryExpression, operatorKind)\<close>.\<close>

definition binaryExpressionPrecedence :: "SyntaxKind \<Rightarrow> int" where
  "binaryExpressionPrecedence operatorKind =
     (if operatorKind = CommaToken then 0
      else if operatorKind = EqualsToken then 3
      else getBinaryOperatorPrecedence operatorKind)"

text \<open>
  \<^verbatim>\<open>getExpressionPrecedence\<close>: \<^verbatim>\<open>getOperatorPrecedence\<close> of the kind of the node and
  its operator. 4 is the precedence of a conditional, 16 of a unary operator, 18 of a
  call, 19 of a member access, 20 of a primary expression.
\<close>

definition getExpressionPrecedence :: "tsNode \<Rightarrow> int" where
  "getExpressionPrecedence expression =
     (case shape expression of
        TsConditional c t f \<Rightarrow> 4
      | TsBinary l operator r \<Rightarrow> binaryExpressionPrecedence operator
      | TsPrefix operator e \<Rightarrow> 16
      | TsTypeOf e \<Rightarrow> 16
      | TsCall f args \<Rightarrow> 18
      | TsNew f args \<Rightarrow> 19
      | TsTaggedTemplate tag template \<Rightarrow> 19
      | TsPropertyAccess e n \<Rightarrow> 19
      | TsElementAccess e i \<Rightarrow> 19
      | TsIdentifier t \<Rightarrow> 20
      | TsNull \<Rightarrow> 20
      | TsLiteral v \<Rightarrow> 20
      | TsArrayLiteral es \<Rightarrow> 20
      | TsObjectLiteral ps \<Rightarrow> 20
      | TsFunctionExpression n ps body \<Rightarrow> 20
      | TsNoSubstitutionTemplateLiteral c r \<Rightarrow> 20
      | TsTemplateExpression h spans \<Rightarrow> 20
      | TsParen e \<Rightarrow> 20
      | _ \<Rightarrow> -1)"

text \<open>\<^verbatim>\<open>getOperatorAssociativity(SyntaxKind.BinaryExpression, operator)\<close>.\<close>

definition binaryExpressionAssociativity :: "SyntaxKind \<Rightarrow> Associativity" where
  "binaryExpressionAssociativity operator = (if operator = EqualsToken then Right else Left)"

definition getExpressionAssociativity :: "tsNode \<Rightarrow> Associativity" where
  "getExpressionAssociativity expression =
     (case shape expression of
        TsNew f args \<Rightarrow> Left
      | TsPrefix operator e \<Rightarrow> Right
      | TsTypeOf e \<Rightarrow> Right
      | TsConditional c t f \<Rightarrow> Right
      | TsBinary l operator r \<Rightarrow> binaryExpressionAssociativity operator
      | _ \<Rightarrow> Left)"

definition isLeftHandSideExpression :: "tsNode \<Rightarrow> bool" where
  "isLeftHandSideExpression node =
     (case shape node of
        TsPropertyAccess e n \<Rightarrow> True
      | TsElementAccess e i \<Rightarrow> True
      | TsNew f args \<Rightarrow> True
      | TsCall f args \<Rightarrow> True
      | TsTaggedTemplate tag template \<Rightarrow> True
      | TsArrayLiteral es \<Rightarrow> True
      | TsParen e \<Rightarrow> True
      | TsObjectLiteral ps \<Rightarrow> True
      | TsFunctionExpression n ps body \<Rightarrow> True
      | TsIdentifier t \<Rightarrow> True
      | TsLiteral v \<Rightarrow> True
      | TsNoSubstitutionTemplateLiteral c r \<Rightarrow> True
      | TsTemplateExpression h spans \<Rightarrow> True
      | TsNull \<Rightarrow> True
      | _ \<Rightarrow> False)"

definition isUnaryExpression :: "tsNode \<Rightarrow> bool" where
  "isUnaryExpression node =
     (case shape node of
        TsPrefix operator e \<Rightarrow> True
      | TsTypeOf e \<Rightarrow> True
      | _ \<Rightarrow> isLeftHandSideExpression node)"

definition isBinaryExpression :: "tsNode \<Rightarrow> bool" where
  "isBinaryExpression node = (case shape node of TsBinary l operator r \<Rightarrow> True | _ \<Rightarrow> False)"

definition isParenthesizedExpression :: "tsNode \<Rightarrow> bool" where
  "isParenthesizedExpression node = (case shape node of TsParen e \<Rightarrow> True | _ \<Rightarrow> False)"

definition isObjectLiteralExpression :: "tsNode \<Rightarrow> bool" where
  "isObjectLiteralExpression node = (case shape node of TsObjectLiteral ps \<Rightarrow> True | _ \<Rightarrow> False)"

definition isFunctionExpression :: "tsNode \<Rightarrow> bool" where
  "isFunctionExpression node =
     (case shape node of TsFunctionExpression n ps body \<Rightarrow> True | _ \<Rightarrow> False)"

definition isCallExpression :: "tsNode \<Rightarrow> bool" where
  "isCallExpression node = (case shape node of TsCall f args \<Rightarrow> True | _ \<Rightarrow> False)"

text \<open>\<^verbatim>\<open>isCommaSequence\<close>: a binary expression of the comma operator.\<close>

definition isCommaSequence :: "tsNode \<Rightarrow> bool" where
  "isCommaSequence node =
     (case shape node of TsBinary l operator r \<Rightarrow> operator = CommaToken | _ \<Rightarrow> False)"

text \<open>
  \<^verbatim>\<open>getLeftmostExpression(node, stopAtCallExpressions)\<close>: down the first operand of
  binary, conditional, tagged template, call and access expressions.
\<close>

fun getLeftmostExpression :: "tsNode \<Rightarrow> bool \<Rightarrow> tsNode" where
  "getLeftmostExpression (Node (TsBinary l operator r) rng cs) stopAtCallExpressions =
     getLeftmostExpression l stopAtCallExpressions"
| "getLeftmostExpression (Node (TsConditional c t f) rng cs) stopAtCallExpressions =
     getLeftmostExpression c stopAtCallExpressions"
| "getLeftmostExpression (Node (TsTaggedTemplate tag template) rng cs) stopAtCallExpressions =
     getLeftmostExpression tag stopAtCallExpressions"
| "getLeftmostExpression (Node (TsCall f args) rng cs) stopAtCallExpressions =
     (if stopAtCallExpressions then Node (TsCall f args) rng cs
      else getLeftmostExpression f stopAtCallExpressions)"
| "getLeftmostExpression (Node (TsElementAccess e i) rng cs) stopAtCallExpressions =
     getLeftmostExpression e stopAtCallExpressions"
| "getLeftmostExpression (Node (TsPropertyAccess e n) rng cs) stopAtCallExpressions =
     getLeftmostExpression e stopAtCallExpressions"
| "getLeftmostExpression node stopAtCallExpressions = node"

subsection \<open>The parenthesizer rules\<close>

definition isLiteralKind :: "SyntaxKind \<Rightarrow> bool" where
  "isLiteralKind k = (k = NumericLiteral \<or> k = StringLiteral \<or> k = NoSubstitutionTemplateLiteral)"

definition operatorHasAssociativeProperty :: "SyntaxKind \<Rightarrow> bool" where
  "operatorHasAssociativeProperty binaryOperator =
     (binaryOperator = AsteriskToken \<or> binaryOperator = AmpersandToken
      \<or> binaryOperator = CommaToken)"

text \<open>
  \<^verbatim>\<open>getLiteralKindOfBinaryPlusOperand\<close>: the kind of literal a chain of \<^verbatim>\<open>+\<close> is made
  of, \<open>Unknown\<close> when it is not made of one kind of literal.
\<close>

fun getLiteralKindOfBinaryPlusOperand :: "tsNode \<Rightarrow> SyntaxKind" where
  "getLiteralKindOfBinaryPlusOperand (Node (TsLiteral (PString t)) rng cs) = StringLiteral"
| "getLiteralKindOfBinaryPlusOperand (Node (TsLiteral (PNumber t)) rng cs) = NumericLiteral"
| "getLiteralKindOfBinaryPlusOperand (Node (TsNoSubstitutionTemplateLiteral c r) rng cs) =
     NoSubstitutionTemplateLiteral"
| "getLiteralKindOfBinaryPlusOperand (Node (TsBinary l operator r) rng cs) =
     (if operator = PlusToken then
        (let leftKind = getLiteralKindOfBinaryPlusOperand l in
         if isLiteralKind leftKind \<and> leftKind = getLiteralKindOfBinaryPlusOperand r
         then leftKind else Unknown)
      else Unknown)"
| "getLiteralKindOfBinaryPlusOperand node = Unknown"

definition binaryOperandNeedsParentheses ::
  "SyntaxKind \<Rightarrow> tsNode \<Rightarrow> bool \<Rightarrow> tsNode option \<Rightarrow> bool" where
  "binaryOperandNeedsParentheses binaryOperator operand isLeftSideOfBinary leftOperand =
     (let binaryOperatorPrecedence = binaryExpressionPrecedence binaryOperator;
          binaryOperatorAssociativity = binaryExpressionAssociativity binaryOperator;
          operandPrecedence = getExpressionPrecedence operand in
      if operandPrecedence < binaryOperatorPrecedence then True
      else if operandPrecedence > binaryOperatorPrecedence then False
      else if isLeftSideOfBinary then binaryOperatorAssociativity = Right
      else if (case shape operand of
                 TsBinary l operator r \<Rightarrow>
                   operator = binaryOperator
                   \<and> (operatorHasAssociativeProperty binaryOperator
                      \<or> (binaryOperator = PlusToken
                          \<and> (let leftKind = (case leftOperand of
                                               Some left \<Rightarrow> getLiteralKindOfBinaryPlusOperand left
                                             | None \<Rightarrow> Unknown) in
                              isLiteralKind leftKind
                              \<and> leftKind = getLiteralKindOfBinaryPlusOperand operand)))
               | _ \<Rightarrow> False)
           then False
      else getExpressionAssociativity operand = Left)"

definition parenthesizeBinaryOperand ::
  "SyntaxKind \<Rightarrow> tsNode \<Rightarrow> bool \<Rightarrow> tsNode option \<Rightarrow> tsNode" where
  "parenthesizeBinaryOperand binaryOperator operand isLeftSideOfBinary leftOperand =
     (if isParenthesizedExpression operand then operand
      else if binaryOperandNeedsParentheses binaryOperator operand isLeftSideOfBinary leftOperand
      then ts_createParen operand
      else operand)"

definition parenthesizeLeftSideOfBinary :: "SyntaxKind \<Rightarrow> tsNode \<Rightarrow> tsNode" where
  "parenthesizeLeftSideOfBinary binaryOperator leftSide =
     parenthesizeBinaryOperand binaryOperator leftSide True None"

definition parenthesizeRightSideOfBinary :: "SyntaxKind \<Rightarrow> tsNode \<Rightarrow> tsNode \<Rightarrow> tsNode" where
  "parenthesizeRightSideOfBinary binaryOperator leftSide rightSide =
     parenthesizeBinaryOperand binaryOperator rightSide False (Some leftSide)"

definition parenthesizeConditionOfConditionalExpression :: "tsNode \<Rightarrow> tsNode" where
  "parenthesizeConditionOfConditionalExpression condition =
     (let conditionalPrecedence = 4;
          conditionPrecedence = getExpressionPrecedence condition in
      if \<not> conditionPrecedence > conditionalPrecedence then ts_createParen condition
      else condition)"

definition parenthesizeBranchOfConditionalExpression :: "tsNode \<Rightarrow> tsNode" where
  "parenthesizeBranchOfConditionalExpression branch =
     (if isCommaSequence branch then ts_createParen branch else branch)"

definition parenthesizeLeftSideOfAccess :: "tsNode \<Rightarrow> tsNode" where
  "parenthesizeLeftSideOfAccess expression =
     (if isLeftHandSideExpression expression then expression else ts_createParen expression)"

definition parenthesizeExpressionOfNew :: "tsNode \<Rightarrow> tsNode" where
  "parenthesizeExpressionOfNew expression =
     (let leftmostExpr = getLeftmostExpression expression True in
      if isCallExpression leftmostExpr then ts_createParen expression
      else parenthesizeLeftSideOfAccess expression)"

definition parenthesizeOperandOfPrefixUnary :: "tsNode \<Rightarrow> tsNode" where
  "parenthesizeOperandOfPrefixUnary operand =
     (if isUnaryExpression operand then operand else ts_createParen operand)"

definition parenthesizeExpressionForDisallowedComma :: "tsNode \<Rightarrow> tsNode" where
  "parenthesizeExpressionForDisallowedComma expression =
     (let expressionPrecedence = getExpressionPrecedence expression;
          commaPrecedence = binaryExpressionPrecedence CommaToken in
      if expressionPrecedence > commaPrecedence then expression
      else ts_createParen expression)"

definition parenthesizeExpressionsOfCommaDelimitedList :: "tsNode list \<Rightarrow> tsNode list" where
  "parenthesizeExpressionsOfCommaDelimitedList elements =
     map parenthesizeExpressionForDisallowedComma elements"

subsection \<open>The factories\<close>

text \<open>
  The names are those the translator calls; each is the function of \<^verbatim>\<open>ts.factory\<close> it
  stands for, with the arguments the translator leaves \<^verbatim>\<open>undefined\<close> left out.
\<close>

abbreviation ts_createBinary :: "tsNode \<Rightarrow> SyntaxKind \<Rightarrow> tsNode \<Rightarrow> tsNode" where
  "ts_createBinary l operator r \<equiv>
     Node (TsBinary (parenthesizeLeftSideOfBinary operator l) operator
             (parenthesizeRightSideOfBinary operator (parenthesizeLeftSideOfBinary operator l) r))
          None []"

abbreviation ts_createElementAccess :: "tsNode \<Rightarrow> tsNode \<Rightarrow> tsNode" where
  "ts_createElementAccess e i \<equiv> Node (TsElementAccess (parenthesizeLeftSideOfAccess e) i) None []"

text \<open>A name given as a string is made an identifier by the factory.\<close>

abbreviation ts_createPropertyAccess :: "tsNode \<Rightarrow> tsNode \<Rightarrow> tsNode" where
  "ts_createPropertyAccess e n \<equiv> Node (TsPropertyAccess (parenthesizeLeftSideOfAccess e) n) None []"

abbreviation ts_createCall :: "tsNode \<Rightarrow> tsNode list \<Rightarrow> tsNode" where
  "ts_createCall f args \<equiv>
     Node (TsCall (parenthesizeLeftSideOfAccess f)
             (parenthesizeExpressionsOfCommaDelimitedList args)) None []"

abbreviation ts_createNew :: "tsNode \<Rightarrow> tsNode list \<Rightarrow> tsNode" where
  "ts_createNew f args \<equiv>
     Node (TsNew (parenthesizeExpressionOfNew f)
             (parenthesizeExpressionsOfCommaDelimitedList args)) None []"

abbreviation ts_createNull :: tsNode where
  "ts_createNull \<equiv> Node TsNull None []"

abbreviation ts_createLiteral :: "Primitive \<Rightarrow> tsNode" where
  "ts_createLiteral v \<equiv> Node (TsLiteral v) None []"

abbreviation ts_createStringLiteral :: "string \<Rightarrow> tsNode" where
  "ts_createStringLiteral t \<equiv> Node (TsLiteral (PString t)) None []"

abbreviation ts_createConditional :: "tsNode \<Rightarrow> tsNode \<Rightarrow> tsNode \<Rightarrow> tsNode" where
  "ts_createConditional c t f \<equiv>
     Node (TsConditional (parenthesizeConditionOfConditionalExpression c)
             (parenthesizeBranchOfConditionalExpression t)
             (parenthesizeBranchOfConditionalExpression f)) None []"

abbreviation ts_createPrefix :: "SyntaxKind \<Rightarrow> tsNode \<Rightarrow> tsNode" where
  "ts_createPrefix operator e \<equiv> Node (TsPrefix operator (parenthesizeOperandOfPrefixUnary e)) None []"

abbreviation ts_createTypeOf :: "tsNode \<Rightarrow> tsNode" where
  "ts_createTypeOf e \<equiv> Node (TsTypeOf (parenthesizeOperandOfPrefixUnary e)) None []"

abbreviation ts_createParameter :: "string \<Rightarrow> tsNode" where
  "ts_createParameter n \<equiv> Node (TsParameter n) None []"

abbreviation ts_createBlock :: "tsNode list \<Rightarrow> tsNode" where
  "ts_createBlock stmts \<equiv> Node (TsBlock stmts) None []"

abbreviation ts_createFunctionExpression :: "string option \<Rightarrow> tsNode list \<Rightarrow> tsNode \<Rightarrow> tsNode" where
  "ts_createFunctionExpression n ps body \<equiv> Node (TsFunctionExpression n ps body) None []"

abbreviation ts_createArrayLiteral :: "tsNode list \<Rightarrow> tsNode" where
  "ts_createArrayLiteral es \<equiv>
     Node (TsArrayLiteral (parenthesizeExpressionsOfCommaDelimitedList es)) None []"

abbreviation ts_createPropertyAssignment :: "tsNode \<Rightarrow> tsNode \<Rightarrow> tsNode" where
  "ts_createPropertyAssignment k v \<equiv>
     Node (TsPropertyAssignment k (parenthesizeExpressionForDisallowedComma v)) None []"

abbreviation ts_createObjectLiteral :: "tsNode list \<Rightarrow> tsNode" where
  "ts_createObjectLiteral ps \<equiv> Node (TsObjectLiteral ps) None []"

abbreviation ts_createNoSubstitutionTemplateLiteral :: "string \<Rightarrow> string \<Rightarrow> tsNode" where
  "ts_createNoSubstitutionTemplateLiteral c r \<equiv> Node (TsNoSubstitutionTemplateLiteral c r) None []"

abbreviation ts_createTemplateHead :: "string \<Rightarrow> string \<Rightarrow> tsNode" where
  "ts_createTemplateHead c r \<equiv> Node (TsTemplateHead c r) None []"

abbreviation ts_createTemplateSpan :: "tsNode \<Rightarrow> tsNode \<Rightarrow> tsNode" where
  "ts_createTemplateSpan e l \<equiv> Node (TsTemplateSpan e l) None []"

abbreviation ts_createTemplateExpression :: "tsNode \<Rightarrow> tsNode list \<Rightarrow> tsNode" where
  "ts_createTemplateExpression h spans \<equiv> Node (TsTemplateExpression h spans) None []"

abbreviation ts_createTaggedTemplate :: "tsNode \<Rightarrow> tsNode \<Rightarrow> tsNode" where
  "ts_createTaggedTemplate tag template \<equiv>
     Node (TsTaggedTemplate (parenthesizeLeftSideOfAccess tag) template) None []"

abbreviation ts_createVariableDeclaration :: "string \<Rightarrow> tsNode option \<Rightarrow> tsNode" where
  "ts_createVariableDeclaration n init \<equiv>
     Node (TsVariableDeclaration n (map_option parenthesizeExpressionForDisallowedComma init))
          None []"

abbreviation ts_createVariableDeclarationList :: "tsNode list \<Rightarrow> NodeFlags \<Rightarrow> tsNode" where
  "ts_createVariableDeclarationList ds flags \<equiv> Node (TsVariableDeclarationList ds flags) None []"

abbreviation ts_createVariableStatement :: "tsNode \<Rightarrow> tsNode" where
  "ts_createVariableStatement l \<equiv> Node (TsVariableStatement l) None []"

abbreviation ts_createFunctionDeclaration :: "string \<Rightarrow> tsNode list \<Rightarrow> tsNode \<Rightarrow> tsNode" where
  "ts_createFunctionDeclaration n ps body \<equiv> Node (TsFunctionDeclaration n ps body) None []"

text \<open>
  \<^verbatim>\<open>update(updated, original)\<close>, by which a factory that makes a node anew from one it
  was given keeps what the given node carries: its comments come first, and its range
  stands when it has one.
\<close>

definition update :: "tsNode \<Rightarrow> tsNode \<Rightarrow> tsNode" where
  "update updated original =
     Node (shape updated)
          (case sourceMapRange original of
             None \<Rightarrow> sourceMapRange updated
           | Some r \<Rightarrow> Some r)
          (leadingComments original @ leadingComments updated)"

text \<open>
  \<^verbatim>\<open>parenthesizeExpressionOfExpressionStatement\<close>: the callee of a call of a function
  expression is put in parentheses; otherwise an expression whose leftmost expression is an
  object literal or a function expression is put in parentheses as a whole.
\<close>

definition parenthesizeExpressionOfExpressionStatement :: "tsNode \<Rightarrow> tsNode" where
  "parenthesizeExpressionOfExpressionStatement expression =
     (let leftmostRule =
            (let leftmostExpression = getLeftmostExpression expression False in
             if isObjectLiteralExpression leftmostExpression
                \<or> isFunctionExpression leftmostExpression
             then ts_createParen expression
             else expression) in
      case shape expression of
        TsCall callee args \<Rightarrow>
          if isFunctionExpression callee
          then update (ts_createCall (ts_createParen callee) args) expression
          else leftmostRule
      | _ \<Rightarrow> leftmostRule)"

text \<open>\<^verbatim>\<open>ts.createStatement\<close> is \<^verbatim>\<open>createExpressionStatement\<close>.\<close>

abbreviation ts_createStatement :: "tsNode \<Rightarrow> tsNode" where
  "ts_createStatement e \<equiv>
     Node (TsExpressionStatement (parenthesizeExpressionOfExpressionStatement e)) None []"

abbreviation ts_createReturn :: "tsNode \<Rightarrow> tsNode" where
  "ts_createReturn e \<equiv> Node (TsReturn e) None []"

abbreviation ts_createIf :: "tsNode \<Rightarrow> tsNode \<Rightarrow> tsNode option \<Rightarrow> tsNode" where
  "ts_createIf c t e \<equiv> Node (TsIf c t e) None []"

abbreviation ts_createThrow :: "tsNode \<Rightarrow> tsNode" where
  "ts_createThrow e \<equiv> Node (TsThrow e) None []"

text \<open>
  The two local replacements for \<^verbatim>\<open>ts.createTemplateMiddle\<close> and
  \<^verbatim>\<open>ts.createTemplateTail\<close>: a template head whose kind is overwritten.
\<close>

abbreviation createTemplateMiddle :: "string \<Rightarrow> string \<Rightarrow> tsNode" where
  "createTemplateMiddle c r \<equiv> Node (TsTemplateMiddle c r) None []"

abbreviation createTemplateTail :: "string \<Rightarrow> string \<Rightarrow> tsNode" where
  "createTemplateTail c r \<equiv> Node (TsTemplateTail c r) None []"

fun ts_isIdentifier :: "tsNode \<Rightarrow> bool" where
  "ts_isIdentifier (Node (TsIdentifier t) r cs) = True"
| "ts_isIdentifier n = False"

text \<open>
  The library functions that change a node in place return the changed node here: nodes are
  values, and a node reached by two paths is two values.
\<close>

definition ts_setSourceMapRange :: "tsNode \<Rightarrow> SourceMapRange \<Rightarrow> tsNode" where
  "ts_setSourceMapRange node r = Node (shape node) (Some r) (leadingComments node)"

definition ts_addSyntheticLeadingComment ::
  "tsNode \<Rightarrow> SyntaxKind \<Rightarrow> string \<Rightarrow> bool \<Rightarrow> tsNode" where
  "ts_addSyntheticLeadingComment node k t nl =
     Node (shape node) (sourceMapRange node)
          (leadingComments node @ [\<lparr>kind = k, commentText = t, hasTrailingNewLine = nl\<rparr>])"

definition ts_createSourceMapSource :: "string \<Rightarrow> string \<Rightarrow> SourceMapSource" where
  "ts_createSourceMapSource u c = \<lparr>fileName = u, sourceText = c\<rparr>"

section \<open>Operator tables\<close>

definition UNARY_OPERATORS :: "(UnaryOperator \<times> SyntaxKind) list" where
  "UNARY_OPERATORS = [(UMinus, MinusToken), (UPlus, PlusToken)]"

definition BINARY_OPERATORS :: "(BinaryOperator \<times> SyntaxKind) list" where
  "BINARY_OPERATORS =
    [(And, AmpersandAmpersandToken),
     (Bigger, GreaterThanToken),
     (BiggerEquals, GreaterThanEqualsToken),
     (BitwiseAnd, AmpersandToken),
     (Divide, SlashToken),
     (Equals, EqualsEqualsToken),
     (Identical, EqualsEqualsEqualsToken),
     (Lower, LessThanToken),
     (LowerEquals, LessThanEqualsToken),
     (Minus, MinusToken),
     (Modulo, PercentToken),
     (Multiply, AsteriskToken),
     (NotEquals, ExclamationEqualsToken),
     (NotIdentical, ExclamationEqualsEqualsToken),
     (Or, BarBarToken),
     (Plus, PlusToken)]"

fun unaryOperatorName :: "UnaryOperator \<Rightarrow> string" where
  "unaryOperatorName UMinus = ''Minus''"
| "unaryOperatorName UPlus = ''Plus''"
| "unaryOperatorName (OtherUnary n) = n"

fun binaryOperatorName :: "BinaryOperator \<Rightarrow> string" where
  "binaryOperatorName And = ''And''"
| "binaryOperatorName Bigger = ''Bigger''"
| "binaryOperatorName BiggerEquals = ''BiggerEquals''"
| "binaryOperatorName BitwiseAnd = ''BitwiseAnd''"
| "binaryOperatorName Divide = ''Divide''"
| "binaryOperatorName Equals = ''Equals''"
| "binaryOperatorName Identical = ''Identical''"
| "binaryOperatorName Lower = ''Lower''"
| "binaryOperatorName LowerEquals = ''LowerEquals''"
| "binaryOperatorName Minus = ''Minus''"
| "binaryOperatorName Modulo = ''Modulo''"
| "binaryOperatorName Multiply = ''Multiply''"
| "binaryOperatorName NotEquals = ''NotEquals''"
| "binaryOperatorName NotIdentical = ''NotIdentical''"
| "binaryOperatorName Or = ''Or''"
| "binaryOperatorName Plus = ''Plus''"
| "binaryOperatorName (OtherBinary n) = n"

section \<open>Source mapping and comments\<close>

text \<open>
  \<^verbatim>\<open>setSourceMapRange(expr, sourceSpan)\<close>: nothing for a null span or an empty URL;
  otherwise the descriptor of the URL is created if the map has none, and the range with
  the descriptor the map now holds is set on the node.
\<close>

definition setSourceMapRange :: "tsNode \<Rightarrow> ParseSourceSpan option \<Rightarrow> tsNode visit" where
  "setSourceMapRange expr sourceSpan =
     (\<lambda>s. case sourceSpan of
        None \<Rightarrow> (Inr expr, s)
      | Some sp \<Rightarrow>
          (let u = url (file (start sp)); c = content (file (start sp)) in
           if u \<noteq> [] then
             (let s' = (if map_of (externalSourceFiles s) u = None
                        then s\<lparr>externalSourceFiles :=
                                 externalSourceFiles s @ [(u, ts_createSourceMapSource u c)]\<rparr>
                        else s);
                  src = map_of (externalSourceFiles s') u
              in (Inr (ts_setSourceMapRange expr
                         \<lparr>pos = offset (start sp), endPos = offset (endLoc sp), source = src\<rparr>),
                  s'))
           else (Inr expr, s)))"

definition createLiteral :: "string \<Rightarrow> ParseSourceSpan option \<Rightarrow> tsNode visit" where
  "createLiteral t span = setSourceMapRange (ts_createStringLiteral t) span"

text \<open>
  \<^verbatim>\<open>messageParts.map((messagePart, i) => this.createLiteral(text, ast.getMessagePartSourceSpan(i)))\<close>
  from index \<open>i\<close> on.
\<close>

fun createLiterals :: "I18nMessage \<Rightarrow> nat \<Rightarrow> string list \<Rightarrow> tsNode list visit" where
  "createLiterals ast i [] = ok []"
| "createLiterals ast i (t # ts) =
     andThen (createLiteral t (getMessagePartSourceSpan ast i)) (\<lambda>l.
     andThen (createLiterals ast (Suc i) ts) (\<lambda>ls.
     ok (l # ls)))"

text \<open>\<^verbatim>\<open>text.split('\n')\<close>: the pieces between the line breaks, \<open>n + 1\<close> of them for \<open>n\<close> breaks.\<close>

fun split_newline :: "string \<Rightarrow> string list" where
  "split_newline [] = [[]]"
| "split_newline (c # cs) =
     (if c = CHR 0x0A then [] # split_newline cs
      else (case split_newline cs of
              [] \<Rightarrow> [[c]]
            | l # ls \<Rightarrow> (c # l) # ls))"

text \<open>The body of the loop of \<^verbatim>\<open>attachComments\<close>, for one comment.\<close>

definition attachComment :: "tsNode \<Rightarrow> LeadingComment \<Rightarrow> tsNode" where
  "attachComment statement comment =
     (let commentKind = (if multiline comment then MultiLineCommentTrivia
                         else SingleLineCommentTrivia) in
      if multiline comment then
        ts_addSyntheticLeadingComment statement commentKind (toString comment)
          (trailingNewline comment)
      else
        fold (\<lambda>line st. ts_addSyntheticLeadingComment st commentKind line
                           (trailingNewline comment))
             (split_newline (text comment)) statement)"

definition attachComments :: "tsNode \<Rightarrow> LeadingComment list option \<Rightarrow> tsNode" where
  "attachComments statement comments =
     (case comments of
        None \<Rightarrow> statement
      | Some cs \<Rightarrow> fold (\<lambda>comment st. attachComment st comment) cs statement)"

section \<open>The translation visitor\<close>

fun isConditionalExpr :: "Expression \<Rightarrow> bool" where
  "isConditionalExpr (ConditionalExpr c t f sp) = True"
| "isConditionalExpr e = False"

text \<open>
  \<^verbatim>\<open>xs.map(x => x.visit...(this, context))\<close>: the visits of the elements, run left to
  right, stopping at the first throw.
\<close>

fun inOrder :: "'a visit list \<Rightarrow> 'a list visit" where
  "inOrder [] = ok []"
| "inOrder (m # ms) =
     andThen m (\<lambda>a.
     andThen (inOrder ms) (\<lambda>as.
     ok (a # as)))"

text \<open>
  The two lowerings of a localized string read \<^verbatim>\<open>ast.expressions[i - 1].visitExpression(this, context)\<close>
  for \<open>i = 1, 2, ...\<close>. They are given the list \<open>visits\<close> of these visits, one for each
  element of \<^verbatim>\<open>ast.expressions\<close> and not yet run; a loop carries \<open>i\<close> and the visits
  from index \<open>i - 1\<close> on, so that the visit it runs is the head of that list, and reading
  past the end is the \<open>TypeError\<close> of calling a method on \<^verbatim>\<open>undefined\<close>.

  \<open>templateSpans\<close> is the loop of the middle parts followed by the tail part.
\<close>

fun templateSpans :: "I18nMessage \<Rightarrow> nat \<Rightarrow> tsNode visit list \<Rightarrow> tsNode list visit" where
  "templateSpans ast i [] = throw TypeError"
| "templateSpans ast i (visitExpr # rest) =
     (let len = messageParts_length ast in
      if Suc i < len then
        \<comment> \<open>a middle part: \<open>visitExpr\<close> visits \<^verbatim>\<open>ast.expressions[i - 1]\<close>\<close>
        andThen visitExpr (\<lambda>resolvedExpression.
        andThen (setSourceMapRange resolvedExpression (getPlaceholderSourceSpan ast (i - 1)))
          (\<lambda>resolvedExpression.
        let templatePart = serializeI18nTemplatePart ast i in
        andThen (setSourceMapRange
                   (createTemplateMiddle (cooked templatePart) (raw templatePart))
                   (getMessagePartSourceSpan ast i)) (\<lambda>templateMiddle.
        andThen (templateSpans ast (Suc i) rest) (\<lambda>spans.
        ok (ts_createTemplateSpan resolvedExpression templateMiddle # spans)))))
      else if len < 2 then
        \<comment> \<open>\<^verbatim>\<open>ast.expressions[length - 2]\<close> with a negative index is \<^verbatim>\<open>undefined\<close>\<close>
        throw TypeError
      else
        \<comment> \<open>the tail part: \<open>visitExpr\<close> visits \<^verbatim>\<open>ast.expressions[length - 2]\<close>\<close>
        andThen visitExpr (\<lambda>resolvedExpression.
        andThen (setSourceMapRange resolvedExpression (getPlaceholderSourceSpan ast (len - 2)))
          (\<lambda>resolvedExpression.
        let templatePart = serializeI18nTemplatePart ast (len - 1) in
        andThen (setSourceMapRange
                   (createTemplateTail (cooked templatePart) (raw templatePart))
                   (getMessagePartSourceSpan ast (len - 1))) (\<lambda>templateTail.
        ok [ts_createTemplateSpan resolvedExpression templateTail]))))"

definition createLocalizedStringTaggedTemplate ::
  "I18nMessage \<Rightarrow> tsNode visit list \<Rightarrow> ParseSourceSpan option \<Rightarrow> tsNode visit" where
  "createLocalizedStringTaggedTemplate ast visits sourceSpan =
     (let len = messageParts_length ast;
          metaBlock = serializeI18nHead ast in
      andThen
        (if len = 1 then
           setSourceMapRange
             (ts_createNoSubstitutionTemplateLiteral (cooked metaBlock) (raw metaBlock))
             (getMessagePartSourceSpan ast 0)
         else
           andThen (setSourceMapRange (ts_createTemplateHead (cooked metaBlock) (raw metaBlock))
                      (getMessagePartSourceSpan ast 0)) (\<lambda>head.
           andThen (templateSpans ast 1 visits) (\<lambda>spans.
           ok (ts_createTemplateExpression head spans))))
        (\<lambda>template.
           setSourceMapRange
             (ts_createTaggedTemplate (ts_createIdentifier ''$localize'') template) sourceSpan))"

text \<open>
  The loop of the function call form: the translated expressions and the serialized
  message parts after the first.
\<close>

fun localizeArguments ::
  "I18nMessage \<Rightarrow> nat \<Rightarrow> tsNode visit list \<Rightarrow> (tsNode list \<times> CookedRaw list) visit" where
  "localizeArguments ast i [] =
     (if i < messageParts_length ast then throw TypeError else ok ([], []))"
| "localizeArguments ast i (visitExpr # rest) =
     (if i < messageParts_length ast then
        andThen visitExpr (\<lambda>v.
        andThen (localizeArguments ast (Suc i) rest) (\<lambda>(vs, parts).
        ok (v # vs, serializeI18nTemplatePart ast i # parts)))
      else ok ([], []))"

definition createLocalizedStringFunctionCall ::
  "ImportManager \<Rightarrow> I18nMessage \<Rightarrow> tsNode visit list \<Rightarrow> tsNode visit" where
  "createLocalizedStringFunctionCall imports ast visits =
     andThen (localizeArguments ast 1 visits) (\<lambda>(expressions, parts).
     let messageParts = serializeI18nHead ast # parts in
     andThen (generateNamedImport imports ''tslib'' ''__makeTemplateObject'') (\<lambda>imp.
     let makeTemplateObjectHelper =
           (case moduleImport imp of
              None \<Rightarrow> ts_createIdentifier (symbol imp)
            | Some m \<Rightarrow> ts_createPropertyAccess (ts_createIdentifier m)
                          (ts_createIdentifier (symbol imp))) in
     andThen (createLiterals ast 0 (map cooked messageParts)) (\<lambda>cookedLiterals.
     andThen (createLiterals ast 0 (map raw messageParts)) (\<lambda>rawLiterals.
     ok (ts_createCall (ts_createIdentifier ''$localize'')
           (ts_createCall makeTemplateObjectHelper
              [ts_createArrayLiteral cookedLiterals, ts_createArrayLiteral rawLiterals]
            # expressions))))))"

text \<open>
  \<open>visitExpression\<close> and \<open>visitStatement\<close> are the dispatch of
  \<^verbatim>\<open>expression.visitExpression(this, context)\<close> and
  \<^verbatim>\<open>statement.visitStatement(this, context)\<close> to the method of the node's class, one
  equation for each method; \<open>visitEntry\<close> is the function mapped over the entries of a
  literal map. The visitor's fields \<open>imports\<close> and \<open>scriptTarget\<close> are parameters.
\<close>

primrec visitExpression ::
      "ImportManager \<Rightarrow> ScriptTarget \<Rightarrow> Expression \<Rightarrow> Context \<Rightarrow> tsNode visit"
  and visitEntry ::
      "ImportManager \<Rightarrow> ScriptTarget \<Rightarrow> LiteralMapEntry \<Rightarrow> Context \<Rightarrow> tsNode visit"
  and visitStatement ::
      "ImportManager \<Rightarrow> ScriptTarget \<Rightarrow> Statement \<Rightarrow> Context \<Rightarrow> tsNode visit"
where
  \<comment> \<open>visitReadVarExpr\<close>
  "visitExpression imports scriptTarget (ReadVarExpr n sourceSpan) context =
     setSourceMapRange (ts_createIdentifier n) sourceSpan"
  \<comment> \<open>visitWriteVarExpr\<close>
| "visitExpression imports scriptTarget (WriteVarExpr n val sourceSpan) context =
     andThen (visitExpression imports scriptTarget val context) (\<lambda>v.
     let result = ts_createBinary (ts_createIdentifier n) EqualsToken v in
     ok (if isStatement context then result else ts_createParen result))"
  \<comment> \<open>visitWriteKeyExpr\<close>
| "visitExpression imports scriptTarget (WriteKeyExpr receiver index val sourceSpan) context =
     (let exprContext = withExpressionMode context in
      andThen (visitExpression imports scriptTarget receiver exprContext) (\<lambda>r.
      andThen (visitExpression imports scriptTarget index exprContext) (\<lambda>i.
      let lhs = ts_createElementAccess r i in
      andThen (visitExpression imports scriptTarget val exprContext) (\<lambda>rhs.
      let result = ts_createBinary lhs EqualsToken rhs in
      ok (if isStatement context then result else ts_createParen result)))))"
  \<comment> \<open>visitWritePropExpr\<close>
| "visitExpression imports scriptTarget (WritePropExpr receiver n val sourceSpan) context =
     andThen (visitExpression imports scriptTarget receiver context) (\<lambda>r.
     andThen (visitExpression imports scriptTarget val context) (\<lambda>v.
     ok (ts_createBinary (ts_createPropertyAccess r (ts_createIdentifier n)) EqualsToken v)))"
  \<comment> \<open>visitInvokeMethodExpr\<close>
| "visitExpression imports scriptTarget (InvokeMethodExpr receiver n args sourceSpan) context =
     andThen (visitExpression imports scriptTarget receiver context) (\<lambda>target.
     andThen (inOrder (map (\<lambda>arg. visitExpression imports scriptTarget arg context) args))
       (\<lambda>as.
     let call = ts_createCall
                  (case n of Some m \<Rightarrow> ts_createPropertyAccess target (ts_createIdentifier m)
                           | None \<Rightarrow> target) as in
     setSourceMapRange call sourceSpan))"
  \<comment> \<open>visitInvokeFunctionExpr\<close>
| "visitExpression imports scriptTarget (InvokeFunctionExpr fn args pure sourceSpan) context =
     andThen (visitExpression imports scriptTarget fn context) (\<lambda>f.
     andThen (inOrder (map (\<lambda>arg. visitExpression imports scriptTarget arg context) args))
       (\<lambda>as.
     let expr = ts_createCall f as;
         expr = (if pure
                 then ts_addSyntheticLeadingComment expr MultiLineCommentTrivia ''@__PURE__'' False
                 else expr) in
     setSourceMapRange expr sourceSpan))"
  \<comment> \<open>visitInstantiateExpr\<close>
| "visitExpression imports scriptTarget (InstantiateExpr classExpr args sourceSpan) context =
     andThen (visitExpression imports scriptTarget classExpr context) (\<lambda>c.
     andThen (inOrder (map (\<lambda>arg. visitExpression imports scriptTarget arg context) args))
       (\<lambda>as.
     ok (ts_createNew c as)))"
  \<comment> \<open>visitLiteralExpr\<close>
| "visitExpression imports scriptTarget (LiteralExpr val sourceSpan) context =
     (let expr = (case val of
                    LUndefined \<Rightarrow> ts_createIdentifier ''undefined''
                  | LNull \<Rightarrow> ts_createNull
                  | LPrimitive p \<Rightarrow> ts_createLiteral p) in
      setSourceMapRange expr sourceSpan)"
  \<comment> \<open>visitLocalizedString\<close>
| "visitExpression imports scriptTarget (LocalizedString ast expressions sourceSpan) context =
     (let visits = map (\<lambda>e. visitExpression imports scriptTarget e context) expressions in
      andThen
        (if targetValue scriptTarget \<ge> targetValue ES2015
         then createLocalizedStringTaggedTemplate ast visits sourceSpan
         else createLocalizedStringFunctionCall imports ast visits)
        (\<lambda>localizedString. setSourceMapRange localizedString sourceSpan))"
  \<comment> \<open>visitExternalExpr; the message interpolates the reference, an object\<close>
| "visitExpression imports scriptTarget (ExternalExpr val sourceSpan) context =
     (case name val of
        None \<Rightarrow> throw (Error ''Import unknown module or symbol [object Object]'')
      | Some n \<Rightarrow>
          (case moduleName val of
             Some m \<Rightarrow>
               andThen (generateNamedImport imports m n) (\<lambda>imp.
               case moduleImport imp of
                 None \<Rightarrow> ok (ts_createIdentifier (symbol imp))
               | Some a \<Rightarrow> ok (ts_createPropertyAccess (ts_createIdentifier a)
                                   (ts_createIdentifier (symbol imp))))
           | None \<Rightarrow> ok (ts_createIdentifier n)))"
  \<comment> \<open>visitConditionalExpr; \<^verbatim>\<open>ast.falseCase\<close> may be null\<close>
| "visitExpression imports scriptTarget (ConditionalExpr condition trueCase falseCase sourceSpan) context =
     andThen (visitExpression imports scriptTarget condition context) (\<lambda>cond.
     let cond = (if isConditionalExpr condition then ts_createParen cond else cond) in
     andThen (visitExpression imports scriptTarget trueCase context) (\<lambda>t.
     case map_option (\<lambda>e. visitExpression imports scriptTarget e context) falseCase of
       None \<Rightarrow> throw TypeError
     | Some visitFalseCase \<Rightarrow>
         andThen visitFalseCase (\<lambda>f.
         ok (ts_createConditional cond t f))))"
  \<comment> \<open>visitNotExpr\<close>
| "visitExpression imports scriptTarget (NotExpr condition sourceSpan) context =
     andThen (visitExpression imports scriptTarget condition context) (\<lambda>c.
     ok (ts_createPrefix ExclamationToken c))"
  \<comment> \<open>visitAssertNotNullExpr\<close>
| "visitExpression imports scriptTarget (AssertNotNull condition sourceSpan) context =
     visitExpression imports scriptTarget condition context"
  \<comment> \<open>visitCastExpr\<close>
| "visitExpression imports scriptTarget (CastExpr val sourceSpan) context =
     visitExpression imports scriptTarget val context"
  \<comment> \<open>visitFunctionExpr; \<^verbatim>\<open>ast.name || undefined\<close> drops a null and an empty name\<close>
| "visitExpression imports scriptTarget (FunctionExpr n params statements sourceSpan) context =
     (let ps = map ts_createParameter params in
      andThen (inOrder (map (\<lambda>stmt. visitStatement imports scriptTarget stmt context) statements))
        (\<lambda>body.
      ok (ts_createFunctionExpression (if n = Some [] then None else n) ps
            (ts_createBlock body))))"
  \<comment> \<open>visitUnaryOperatorExpr\<close>
| "visitExpression imports scriptTarget (UnaryOperatorExpr operator expr sourceSpan) context =
     (case map_of UNARY_OPERATORS operator of
        None \<Rightarrow> throw (Error (''Unknown unary operator: '' @ unaryOperatorName operator))
      | Some token \<Rightarrow>
          andThen (visitExpression imports scriptTarget expr context) (\<lambda>e.
          ok (ts_createPrefix token e)))"
  \<comment> \<open>visitBinaryOperatorExpr\<close>
| "visitExpression imports scriptTarget (BinaryOperatorExpr operator lhs rhs sourceSpan) context =
     (case map_of BINARY_OPERATORS operator of
        None \<Rightarrow> throw (Error (''Unknown binary operator: '' @ binaryOperatorName operator))
      | Some token \<Rightarrow>
          andThen (visitExpression imports scriptTarget lhs context) (\<lambda>l.
          andThen (visitExpression imports scriptTarget rhs context) (\<lambda>r.
          ok (ts_createBinary l token r))))"
  \<comment> \<open>visitReadPropExpr\<close>
| "visitExpression imports scriptTarget (ReadPropExpr receiver n sourceSpan) context =
     andThen (visitExpression imports scriptTarget receiver context) (\<lambda>r.
     ok (ts_createPropertyAccess r (ts_createIdentifier n)))"
  \<comment> \<open>visitReadKeyExpr\<close>
| "visitExpression imports scriptTarget (ReadKeyExpr receiver index sourceSpan) context =
     andThen (visitExpression imports scriptTarget receiver context) (\<lambda>r.
     andThen (visitExpression imports scriptTarget index context) (\<lambda>i.
     ok (ts_createElementAccess r i)))"
  \<comment> \<open>visitLiteralArrayExpr\<close>
| "visitExpression imports scriptTarget (LiteralArrayExpr entries sourceSpan) context =
     andThen (inOrder (map (\<lambda>expr. visitExpression imports scriptTarget expr context) entries))
       (\<lambda>es.
     setSourceMapRange (ts_createArrayLiteral es) sourceSpan)"
  \<comment> \<open>visitLiteralMapExpr\<close>
| "visitExpression imports scriptTarget (LiteralMapExpr entries sourceSpan) context =
     andThen (inOrder (map (\<lambda>entry. visitEntry imports scriptTarget entry context) entries))
       (\<lambda>es.
     setSourceMapRange (ts_createObjectLiteral es) sourceSpan)"
  \<comment> \<open>visitCommaExpr\<close>
| "visitExpression imports scriptTarget (CommaExpr parts sourceSpan) context =
     throw (Error ''Method not implemented.'')"
  \<comment> \<open>visitWrappedNodeExpr\<close>
| "visitExpression imports scriptTarget (WrappedNodeExpr node sourceSpan) context =
     andThen (if ts_isIdentifier node then recordUsedIdentifier node else ok ()) (\<lambda>u.
     ok node)"
  \<comment> \<open>visitTypeofExpr\<close>
| "visitExpression imports scriptTarget (TypeofExpr expr sourceSpan) context =
     andThen (visitExpression imports scriptTarget expr context) (\<lambda>e.
     ok (ts_createTypeOf e))"

  \<comment> \<open>the function mapped over \<^verbatim>\<open>ast.entries\<close> by visitLiteralMapExpr\<close>
| "visitEntry imports scriptTarget (LiteralMapEntry k val q) context =
     (let keyNode = (if q then ts_createLiteral (PString k) else ts_createIdentifier k) in
      andThen (visitExpression imports scriptTarget val context) (\<lambda>v.
      ok (ts_createPropertyAssignment keyNode v)))"

  \<comment> \<open>visitDeclareVarStmt; \<^verbatim>\<open>stmt.value\<close> is optional\<close>
| "visitStatement imports scriptTarget (DeclareVarStmt n val modifiers comments) context =
     (let varType = (if targetValue scriptTarget < targetValue ES2015 then NoFlags
                     else if Final \<in> set modifiers then Const else Let) in
      andThen (case map_option (\<lambda>e. visitExpression imports scriptTarget e
                                        (withExpressionMode context)) val of
                 None \<Rightarrow> ok None
               | Some visitValue \<Rightarrow> andThen visitValue (\<lambda>init. ok (Some init)))
        (\<lambda>initializer.
      let varDeclaration = ts_createVariableDeclaration n initializer;
          declarationList = ts_createVariableDeclarationList [varDeclaration] varType;
          varStatement = ts_createVariableStatement declarationList in
      ok (attachComments varStatement comments)))"
  \<comment> \<open>visitDeclareFunctionStmt\<close>
| "visitStatement imports scriptTarget (DeclareFunctionStmt n params statements comments) context =
     (let ps = map ts_createParameter params in
      andThen (inOrder (map (\<lambda>child. visitStatement imports scriptTarget child
                                         (withStatementMode context)) statements))
        (\<lambda>body.
      ok (attachComments (ts_createFunctionDeclaration n ps (ts_createBlock body)) comments)))"
  \<comment> \<open>visitExpressionStmt\<close>
| "visitStatement imports scriptTarget (ExpressionStatement expr comments) context =
     andThen (visitExpression imports scriptTarget expr (withStatementMode context)) (\<lambda>e.
     ok (attachComments (ts_createStatement e) comments))"
  \<comment> \<open>visitReturnStmt\<close>
| "visitStatement imports scriptTarget (ReturnStatement val comments) context =
     andThen (visitExpression imports scriptTarget val (withExpressionMode context)) (\<lambda>e.
     ok (attachComments (ts_createReturn e) comments))"
  \<comment> \<open>visitDeclareClassStmt\<close>
| \<open>visitStatement imports scriptTarget (ClassStmt n comments) context =
     (if targetValue scriptTarget < targetValue ES2015 then
        throw (Error (''Unsupported mode: Visiting a "declare class" statement (class '' @ n
                      @ '') while targeting '' @ targetName scriptTarget @ ''.''))
      else throw (Error ''Method not implemented.''))\<close>
  \<comment> \<open>visitIfStmt\<close>
| "visitStatement imports scriptTarget (IfStmt condition trueCase falseCase comments) context =
     andThen (inOrder (map (\<lambda>child. visitStatement imports scriptTarget child
                                        (withStatementMode context)) trueCase))
       (\<lambda>thenStmts.
     let thenBlock = ts_createBlock thenStmts in
     andThen (if length falseCase > 0 then
                andThen (inOrder (map (\<lambda>child. visitStatement imports scriptTarget child
                                                   (withStatementMode context)) falseCase))
                  (\<lambda>elseStmts. ok (Some (ts_createBlock elseStmts)))
              else ok None) (\<lambda>elseBlock.
     andThen (visitExpression imports scriptTarget condition context) (\<lambda>c.
     ok (attachComments (ts_createIf c thenBlock elseBlock) comments))))"
  \<comment> \<open>visitTryCatchStmt\<close>
| "visitStatement imports scriptTarget (TryCatchStmt bodyStmts catchStmts comments) context =
     throw (Error ''Method not implemented.'')"
  \<comment> \<open>visitThrowStmt\<close>
| "visitStatement imports scriptTarget (ThrowStmt err comments) context =
     andThen (visitExpression imports scriptTarget err (withExpressionMode context)) (\<lambda>e.
     ok (attachComments (ts_createThrow e) comments))"

section \<open>The entry points\<close>

text \<open>
  Each entry point makes a visitor of its own, with an empty map of source files. The
  result is the node or the error thrown, with the state the run leaves: the calls it made
  to the two collaborators. The import manager is the parameter \<open>imports\<close>; the default
  import recorder only receives calls, which the state lists, so it is no parameter here.
\<close>

definition newVisitor :: VisitorState where
  "newVisitor = \<lparr>externalSourceFiles = [], importCalls = [], usedIdentifiers = []\<rparr>"

definition translateExpression ::
  "Expression \<Rightarrow> ImportManager \<Rightarrow> ScriptTarget \<Rightarrow> (error + tsNode) \<times> VisitorState" where
  "translateExpression expression imports scriptTarget =
     visitExpression imports scriptTarget expression (Context False) newVisitor"

definition translateStatement ::
  "Statement \<Rightarrow> ImportManager \<Rightarrow> ScriptTarget \<Rightarrow> (error + tsNode) \<times> VisitorState" where
  "translateStatement statement imports scriptTarget =
     visitStatement imports scriptTarget statement (Context True) newVisitor"

section \<open>Observations and sample inputs\<close>

text \<open>
  \<^verbatim>\<open>lines.join('\n')\<close>: the inverse of \<open>split_newline\<close>, used to say that the
  lines of a comment put together again are its text.
\<close>

definition join_newline :: "string list \<Rightarrow> string" where
  "join_newline ls =
     (case ls of [] \<Rightarrow> [] | l # rest \<Rightarrow> foldl (\<lambda>acc x. acc @ CHR 0x0A # x) l rest)"

text \<open>
  The trivia units one leading comment stands for: one block unit with the text
  \<^verbatim>\<open>toString()\<close> gives, or one single-line unit for each line of the text.
\<close>

definition commentTrivia :: "LeadingComment \<Rightarrow> SynthesizedComment list" where
  "commentTrivia c =
     (if multiline c
      then [\<lparr>kind = MultiLineCommentTrivia, commentText = toString c,
             hasTrailingNewLine = trailingNewline c\<rparr>]
      else map (\<lambda>line. \<lparr>kind = SingleLineCommentTrivia, commentText = line,
                          hasTrailingNewLine = trailingNewline c\<rparr>)
               (split_newline (text c)))"

text \<open>Two import managers: one that finds every symbol ambient, one that aliases every module as \<open>i0\<close>.\<close>

definition noAlias :: ImportManager where
  "noAlias calls m n = \<lparr>moduleImport = None, symbol = n\<rparr>"

definition aliasI0 :: ImportManager where
  "aliasI0 calls m n = \<lparr>moduleImport = Some ''i0'', symbol = n\<rparr>"

text \<open>
  A line comment of two lines, a block comment of two lines, and a comment of a subclass
  that overrides \<^verbatim>\<open>toString()\<close>.
\<close>

definition lineComment :: LeadingComment where
  "lineComment = \<lparr>text = [CHR ''a'', CHR 0x0A, CHR ''b''], multiline = False,
                  trailingNewline = True, toStringOverride = None\<rparr>"

definition blockComment :: LeadingComment where
  "blockComment = \<lparr>text = [CHR ''c'', CHR 0x0A, CHR ''d''], multiline = True,
                   trailingNewline = False, toStringOverride = None\<rparr>"

definition jsDocComment :: LeadingComment where
  "jsDocComment = \<lparr>text = [], multiline = True, trailingNewline = True,
                   toStringOverride = Some ''* @pure ''\<rparr>"

text \<open>
  What is read off a lowered localized string: the expressions spliced into it, in order,
  and its literal text, the cooked and raw form of each message part in order.
\<close>

definition literalPart :: "tsNode \<Rightarrow> CookedRaw list" where
  "literalPart n =
     (case shape n of
        TsNoSubstitutionTemplateLiteral c r \<Rightarrow> [\<lparr>cooked = c, raw = r\<rparr>]
      | TsTemplateHead c r \<Rightarrow> [\<lparr>cooked = c, raw = r\<rparr>]
      | TsTemplateMiddle c r \<Rightarrow> [\<lparr>cooked = c, raw = r\<rparr>]
      | TsTemplateTail c r \<Rightarrow> [\<lparr>cooked = c, raw = r\<rparr>]
      | _ \<Rightarrow> [])"

definition spanExpression :: "tsNode \<Rightarrow> tsNode list" where
  "spanExpression n = (case shape n of TsTemplateSpan e l \<Rightarrow> [e] | _ \<Rightarrow> [])"

definition spanLiteral :: "tsNode \<Rightarrow> CookedRaw list" where
  "spanLiteral n = (case shape n of TsTemplateSpan e l \<Rightarrow> literalPart l | _ \<Rightarrow> [])"

definition stringLiterals :: "tsNode \<Rightarrow> string list" where
  "stringLiterals n =
     (case shape n of
        TsArrayLiteral es \<Rightarrow>
          concat (map (\<lambda>e. case shape e of TsLiteral (PString t) \<Rightarrow> [t] | _ \<Rightarrow> []) es)
      | _ \<Rightarrow> [])"

definition splicedExpressions :: "tsNode \<Rightarrow> tsNode list" where
  "splicedExpressions n =
     (case shape n of
        TsTaggedTemplate tag template \<Rightarrow>
          (case shape template of
             TsTemplateExpression h spans \<Rightarrow> concat (map spanExpression spans)
           | _ \<Rightarrow> [])
      | TsCall callee args \<Rightarrow> tl args
      | _ \<Rightarrow> [])"

definition messageText :: "tsNode \<Rightarrow> CookedRaw list" where
  "messageText n =
     (case shape n of
        TsTaggedTemplate tag template \<Rightarrow>
          (case shape template of
             TsTemplateExpression h spans \<Rightarrow> literalPart h @ concat (map spanLiteral spans)
           | _ \<Rightarrow> literalPart template)
      | TsCall callee args \<Rightarrow>
          (case args of
             [] \<Rightarrow> []
           | templateObject # es \<Rightarrow>
               (case shape templateObject of
                  TsCall helper [cookedArray, rawArray] \<Rightarrow>
                    map (\<lambda>(c, r). \<lparr>cooked = c, raw = r\<rparr>)
                        (zip (stringLiterals cookedArray) (stringLiterals rawArray))
                | _ \<Rightarrow> []))
      | _ \<Rightarrow> [])"

definition i18nTwo :: I18nMessage where
  "i18nTwo = \<lparr>messageParts_length = 3,
             serializeI18nHead = \<lparr>cooked = '':m:a'', raw = '':m:a''\<rparr>,
             serializeI18nTemplatePart =
               (\<lambda>i. if i = 1 then \<lparr>cooked = '':x:b'', raw = '':x:b''\<rparr>
                    else \<lparr>cooked = '':y:c'', raw = '':y:c''\<rparr>),
             getMessagePartSourceSpan = (\<lambda>i. None),
             getPlaceholderSourceSpan = (\<lambda>i. None)\<rparr>"

definition localizedTwo :: Expression where
  "localizedTwo = LocalizedString i18nTwo [ReadVarExpr ''p'' None, ReadVarExpr ''q'' None] None"

definition taggedTwo :: tsNode where
  "taggedTwo =
     ts_createTaggedTemplate (ts_createIdentifier ''$localize'')
       (ts_createTemplateExpression (ts_createTemplateHead '':m:a'' '':m:a'')
          [ts_createTemplateSpan (ts_createIdentifier ''p'') (createTemplateMiddle '':x:b'' '':x:b''),
           ts_createTemplateSpan (ts_createIdentifier ''q'') (createTemplateTail '':y:c'' '':y:c'')])"

definition calledTwo :: tsNode where
  "calledTwo =
     ts_createCall (ts_createIdentifier ''$localize'')
       [ts_createCall (ts_createIdentifier ''__makeTemplateObject'')
          [ts_createArrayLiteral
             [ts_createStringLiteral '':m:a'', ts_createStringLiteral '':x:b'',
              ts_createStringLiteral '':y:c''],
           ts_createArrayLiteral
             [ts_createStringLiteral '':m:a'', ts_createStringLiteral '':x:b'',
              ts_createStringLiteral '':y:c'']],
        ts_createIdentifier ''p'', ts_createIdentifier ''q'']"

text \<open>
  The state of the source files map that C9 is about: one entry for a URL, each entry's
  descriptor named by its URL, no entry for the empty URL. \<open>cacheStep\<close> relates the state
  before a visit to the state after it: the map has grown at its end only, and is still
  well formed if it was. \<open>keepsCache\<close> says so of every run of a visit.
\<close>

definition sourceFilesOK :: "(string \<times> SourceMapSource) list \<Rightarrow> bool" where
  "sourceFilesOK files =
     (distinct (map fst files) \<and> list_all (\<lambda>(u, d). u \<noteq> [] \<and> fileName d = u) files)"

definition cacheStep :: "VisitorState \<Rightarrow> VisitorState \<Rightarrow> bool" where
  "cacheStep s s' =
     (prefix (externalSourceFiles s) (externalSourceFiles s')
      \<and> (sourceFilesOK (externalSourceFiles s) \<longrightarrow> sourceFilesOK (externalSourceFiles s')))"

definition keepsCache :: "'a visit \<Rightarrow> bool" where
  "keepsCache m = (\<forall>s r s'. m s = (r, s') \<longrightarrow> cacheStep s s')"

text \<open>The range a node gets from a span, with the descriptor the state holds for its URL.\<close>

definition spanRange :: "ParseSourceSpan option \<Rightarrow> VisitorState \<Rightarrow> SourceMapRange option" where
  "spanRange span s =
     (case span of
        None \<Rightarrow> None
      | Some sp \<Rightarrow>
          if url (file (start sp)) = [] then None
          else Some \<lparr>pos = offset (start sp), endPos = offset (endLoc sp),
                     source = map_of (externalSourceFiles s) (url (file (start sp)))\<rparr>)"

fun sourceSpan :: "Expression \<Rightarrow> ParseSourceSpan option" where
  "sourceSpan (ReadVarExpr n sp) = sp"
| "sourceSpan (WriteVarExpr n v sp) = sp"
| "sourceSpan (WriteKeyExpr r i v sp) = sp"
| "sourceSpan (WritePropExpr r n v sp) = sp"
| "sourceSpan (InvokeMethodExpr r n args sp) = sp"
| "sourceSpan (InvokeFunctionExpr f args p sp) = sp"
| "sourceSpan (InstantiateExpr c args sp) = sp"
| "sourceSpan (LiteralExpr v sp) = sp"
| "sourceSpan (LocalizedString ast es sp) = sp"
| "sourceSpan (ExternalExpr v sp) = sp"
| "sourceSpan (ConditionalExpr c t f sp) = sp"
| "sourceSpan (NotExpr c sp) = sp"
| "sourceSpan (AssertNotNull c sp) = sp"
| "sourceSpan (CastExpr v sp) = sp"
| "sourceSpan (FunctionExpr n ps ss sp) = sp"
| "sourceSpan (UnaryOperatorExpr operator e sp) = sp"
| "sourceSpan (BinaryOperatorExpr operator l r sp) = sp"
| "sourceSpan (ReadPropExpr r n sp) = sp"
| "sourceSpan (ReadKeyExpr r i sp) = sp"
| "sourceSpan (LiteralArrayExpr es sp) = sp"
| "sourceSpan (LiteralMapExpr es sp) = sp"
| "sourceSpan (CommaExpr ps sp) = sp"
| "sourceSpan (WrappedNodeExpr n sp) = sp"
| "sourceSpan (TypeofExpr e sp) = sp"

text \<open>The expressions whose visit method ends with \<^verbatim>\<open>this.setSourceMapRange(node, ast.sourceSpan)\<close>.\<close>

fun mapsOwnSpan :: "Expression \<Rightarrow> bool" where
  "mapsOwnSpan (ReadVarExpr n sp) = True"
| "mapsOwnSpan (InvokeMethodExpr r n args sp) = True"
| "mapsOwnSpan (InvokeFunctionExpr f args p sp) = True"
| "mapsOwnSpan (LiteralExpr v sp) = True"
| "mapsOwnSpan (LocalizedString ast es sp) = True"
| "mapsOwnSpan (LiteralArrayExpr es sp) = True"
| "mapsOwnSpan (LiteralMapExpr es sp) = True"
| "mapsOwnSpan e = False"

text \<open>
  The expressions whose visit method builds a node of its own and never calls
  \<^verbatim>\<open>setSourceMapRange\<close> on it.
\<close>

fun buildsUnmappedNode :: "Expression \<Rightarrow> bool" where
  "buildsUnmappedNode (WriteVarExpr n v sp) = True"
| "buildsUnmappedNode (WriteKeyExpr r i v sp) = True"
| "buildsUnmappedNode (WritePropExpr r n v sp) = True"
| "buildsUnmappedNode (InstantiateExpr c args sp) = True"
| "buildsUnmappedNode (ExternalExpr v sp) = True"
| "buildsUnmappedNode (ConditionalExpr c t f sp) = True"
| "buildsUnmappedNode (NotExpr c sp) = True"
| "buildsUnmappedNode (FunctionExpr n ps ss sp) = True"
| "buildsUnmappedNode (UnaryOperatorExpr operator e sp) = True"
| "buildsUnmappedNode (BinaryOperatorExpr operator l r sp) = True"
| "buildsUnmappedNode (ReadPropExpr r n sp) = True"
| "buildsUnmappedNode (ReadKeyExpr r i sp) = True"
| "buildsUnmappedNode (TypeofExpr e sp) = True"
| "buildsUnmappedNode e = False"

definition fileA :: ParseSourceFile where
  "fileA = \<lparr>content = ''x + y'', url = ''a.ts''\<rparr>"

definition spanX :: ParseSourceSpan where
  "spanX = \<lparr>start = \<lparr>file = fileA, offset = 0\<rparr>, endLoc = \<lparr>file = fileA, offset = 1\<rparr>\<rparr>"

definition spanY :: ParseSourceSpan where
  "spanY = \<lparr>start = \<lparr>file = fileA, offset = 4\<rparr>, endLoc = \<lparr>file = fileA, offset = 5\<rparr>\<rparr>"

definition sourceA :: SourceMapSource where
  "sourceA = \<lparr>fileName = ''a.ts'', sourceText = ''x + y''\<rparr>"

definition arrayXY :: Expression where
  "arrayXY = LiteralArrayExpr [ReadVarExpr ''x'' (Some spanX), ReadVarExpr ''y'' (Some spanY)]
               (Some spanX)"

definition arrayNode :: tsNode where
  "arrayNode =
     Node (TsArrayLiteral
             [Node (TsIdentifier ''x'') (Some \<lparr>pos = 0, endPos = 1, source = Some sourceA\<rparr>) [],
              Node (TsIdentifier ''y'') (Some \<lparr>pos = 4, endPos = 5, source = Some sourceA\<rparr>) []])
          (Some \<lparr>pos = 0, endPos = 1, source = Some sourceA\<rparr>) []"

definition visitedA :: VisitorState where
  "visitedA = \<lparr>externalSourceFiles = [(''a.ts'', sourceA)], importCalls = [],
               usedIdentifiers = []\<rparr>"

definition notX :: Expression where
  "notX = NotExpr (ReadVarExpr ''x'' None) (Some spanX)"


definition identifierNode :: "string \<Rightarrow> tsNode" where
  "identifierNode n = Node (TsIdentifier n) None []"











text \<open>
  Sample statements: the assignment \<^verbatim>\<open>a = b\<close>, the object literal \<^verbatim>\<open>{k: x}\<close> and the
  call of a function expression, each as an expression statement, with the nodes they
  translate to: \<^verbatim>\<open>a = b;\<close>, \<^verbatim>\<open>({k: x});\<close> and \<^verbatim>\<open>(function () { })();\<close>.
\<close>

definition writeAB :: Expression where
  "writeAB = WriteVarExpr ''a'' (ReadVarExpr ''b'' None) None"

definition assignmentNode :: tsNode where
  "assignmentNode =
     Node (TsBinary (identifierNode ''a'') EqualsToken (identifierNode ''b'')) None []"

definition mapKX :: Expression where
  "mapKX = LiteralMapExpr [LiteralMapEntry ''k'' (ReadVarExpr ''x'' None) False] None"

definition mapNode :: tsNode where
  "mapNode =
     Node (TsObjectLiteral
             [Node (TsPropertyAssignment (identifierNode ''k'') (identifierNode ''x'')) None []])
          None []"

definition callOfFunction :: Expression where
  "callOfFunction = InvokeFunctionExpr (FunctionExpr None [] [] None) [] False None"

definition functionNode :: tsNode where
  "functionNode = Node (TsFunctionExpression None [] (Node (TsBlock []) None [])) None []"

text \<open>
  Whether the expression statement rule of the library puts the whole of an expression in
  parentheses: its leftmost expression is an object literal or a function expression, and
  it is not the call of a function expression.
\<close>

definition startsStatementBadly :: "tsNode \<Rightarrow> bool" where
  "startsStatementBadly e =
     (isObjectLiteralExpression (getLeftmostExpression e False)
      \<or> isFunctionExpression (getLeftmostExpression e False))"

definition callsFunctionExpression :: "tsNode \<Rightarrow> bool" where
  "callsFunctionExpression e =
     (case shape e of TsCall callee args \<Rightarrow> isFunctionExpression callee | _ \<Rightarrow> False)"

section \<open>Running a visit\<close>

lemma run_simps:
  "ok a s = (Inr a, s)" "throw e s = (Inl e, s)"
  "andThen m f s = (case m s of (Inl e, s') \<Rightarrow> (Inl e, s') | (Inr a, s') \<Rightarrow> f a s')"
  by (simp_all add: ok_def throw_def andThen_def)

lemma andThen_Inr:
  "andThen m f s = (Inr b, s') \<longleftrightarrow> (\<exists>a s1. m s = (Inr a, s1) \<and> f a s1 = (Inr b, s'))"
  by (auto simp: andThen_def split: prod.splits sum.splits)

lemma ok_Inr: "ok a s = (Inr b, s') \<longleftrightarrow> b = a \<and> s' = s"
  by (auto simp: ok_def)

lemma shape_addComment [simp]: "shape (ts_addSyntheticLeadingComment st k t nl) = shape st"
  by (simp add: ts_addSyntheticLeadingComment_def)

lemma range_addComment [simp]:
  "sourceMapRange (ts_addSyntheticLeadingComment st k t nl) = sourceMapRange st"
  by (simp add: ts_addSyntheticLeadingComment_def)

lemma setSourceMapRange_None [simp]: "setSourceMapRange node None s = (Inr node, s)"
  by (simp add: setSourceMapRange_def)

section \<open>Facts about the parenthesizer rules\<close>

lemmas kind_defs =
  isLeftHandSideExpression_def isUnaryExpression_def isBinaryExpression_def
  isParenthesizedExpression_def isObjectLiteralExpression_def isFunctionExpression_def
  isCallExpression_def isCommaSequence_def isLiteralKind_def operatorHasAssociativeProperty_def

lemmas precedence_defs =
  getExpressionPrecedence_def binaryExpressionPrecedence_def binaryExpressionAssociativity_def
  getExpressionAssociativity_def

lemmas parenthesizer_defs =
  binaryOperandNeedsParentheses_def parenthesizeBinaryOperand_def
  parenthesizeLeftSideOfBinary_def parenthesizeRightSideOfBinary_def
  parenthesizeConditionOfConditionalExpression_def parenthesizeBranchOfConditionalExpression_def
  parenthesizeLeftSideOfAccess_def parenthesizeExpressionOfNew_def
  parenthesizeOperandOfPrefixUnary_def parenthesizeExpressionForDisallowedComma_def
  parenthesizeExpressionsOfCommaDelimitedList_def
  parenthesizeExpressionOfExpressionStatement_def update_def

lemmas rules_defs = kind_defs precedence_defs parenthesizer_defs

lemma comma_primary:
  "0 < getExpressionPrecedence e \<Longrightarrow> parenthesizeExpressionForDisallowedComma e = e"
  by (simp add: parenthesizeExpressionForDisallowedComma_def binaryExpressionPrecedence_def)

lemma comma_literal [simp]:
  "shape e = TsLiteral v \<Longrightarrow> parenthesizeExpressionForDisallowedComma e = e"
  by (simp add: comma_primary getExpressionPrecedence_def)

lemma comma_array [simp]:
  "parenthesizeExpressionForDisallowedComma (Node (TsArrayLiteral es) r cs)
     = Node (TsArrayLiteral es) r cs"
  by (simp add: comma_primary getExpressionPrecedence_def)

lemma comma_call [simp]:
  "parenthesizeExpressionForDisallowedComma (Node (TsCall f args) r cs)
     = Node (TsCall f args) r cs"
  by (simp add: comma_primary getExpressionPrecedence_def)

lemma comma_identifier [simp]:
  "parenthesizeExpressionForDisallowedComma (Node (TsIdentifier t) r cs)
     = Node (TsIdentifier t) r cs"
  by (simp add: comma_primary getExpressionPrecedence_def)

lemma comma_list_Nil [simp]: "parenthesizeExpressionsOfCommaDelimitedList [] = []"
  by (simp add: parenthesizeExpressionsOfCommaDelimitedList_def)

lemma comma_list_Cons [simp]:
  "parenthesizeExpressionsOfCommaDelimitedList (e # es)
     = parenthesizeExpressionForDisallowedComma e # parenthesizeExpressionsOfCommaDelimitedList es"
  by (simp add: parenthesizeExpressionsOfCommaDelimitedList_def)

lemma comma_list_length [simp]:
  "length (parenthesizeExpressionsOfCommaDelimitedList es) = length es"
  by (simp add: parenthesizeExpressionsOfCommaDelimitedList_def)

lemma comma_list_nth:
  "j < length es \<Longrightarrow>
     parenthesizeExpressionsOfCommaDelimitedList es ! j
       = parenthesizeExpressionForDisallowedComma (es ! j)"
  by (simp add: parenthesizeExpressionsOfCommaDelimitedList_def)

lemma comma_list_literals:
  "map shape ls = map (\<lambda>t. TsLiteral (PString t)) ts \<Longrightarrow>
     parenthesizeExpressionsOfCommaDelimitedList ls = ls"
proof (induction ls arbitrary: ts)
  case Nil
  show ?case by simp
next
  case (Cons l ls)
  then obtain t ts' where "ts = t # ts'" by (cases ts) auto
  with Cons show ?case by auto
qed

lemma access_identifier [simp]:
  "parenthesizeLeftSideOfAccess (Node (TsIdentifier t) r cs) = Node (TsIdentifier t) r cs"
  by (simp add: parenthesizeLeftSideOfAccess_def isLeftHandSideExpression_def)

lemma left_of_assignment_identifier [simp]:
  "parenthesizeLeftSideOfBinary EqualsToken (Node (TsIdentifier t) r cs)
     = Node (TsIdentifier t) r cs"
  by (simp add: rules_defs)

section \<open>Comments\<close>

lemma fold_addComment:
  "fold (\<lambda>line st. ts_addSyntheticLeadingComment st k line nl) ls st =
     Node (shape st) (sourceMapRange st)
       (leadingComments st @
        map (\<lambda>l. \<lparr>kind = k, commentText = l, hasTrailingNewLine = nl\<rparr>) ls)"
  by (induction ls arbitrary: st) (simp_all add: ts_addSyntheticLeadingComment_def)

lemma attachComment_eq:
  "attachComment st c = Node (shape st) (sourceMapRange st) (leadingComments st @ commentTrivia c)"
proof (cases "multiline c")
  case True
  then show ?thesis
    by (simp add: attachComment_def commentTrivia_def ts_addSyntheticLeadingComment_def)
next
  case False
  then show ?thesis
    by (simp add: attachComment_def commentTrivia_def fold_addComment)
qed

lemma fold_attachComment:
  "fold (\<lambda>comment st. attachComment st comment) cs st =
     Node (shape st) (sourceMapRange st) (leadingComments st @ concat (map commentTrivia cs))"
proof (induction cs arbitrary: st)
  case Nil
  show ?case by simp
next
  case (Cons c cs)
  show ?case
    unfolding fold_simps Cons.IH by (simp add: attachComment_eq)
qed

lemma shape_attachComments [simp]: "shape (attachComments st cs) = shape st"
  by (cases cs) (simp_all add: attachComments_def fold_attachComment)

lemma range_attachComments [simp]: "sourceMapRange (attachComments st cs) = sourceMapRange st"
  by (cases cs) (simp_all add: attachComments_def fold_attachComment)

lemma split_newline_not_Nil [simp]: "split_newline t \<noteq> []"
  by (induction t) (auto split: list.splits)

lemma length_split_newline: "length (split_newline t) = Suc (count_list t (CHR 0x0A))"
  by (induction t) (auto split: list.splits)

lemma foldl_join_Cons:
  "foldl (\<lambda>acc x. acc @ CHR 0x0A # x) (c # l) rest = c # foldl (\<lambda>acc x. acc @ CHR 0x0A # x) l rest"
  by (induction rest arbitrary: l) simp_all

lemma join_split_newline: "join_newline (split_newline t) = t"
proof (induction t)
  case Nil
  show ?case by (simp add: join_newline_def)
next
  case (Cons c t)
  obtain l ls where sp: "split_newline t = l # ls"
    by (cases "split_newline t") simp_all
  with Cons have IH: "foldl (\<lambda>acc x. acc @ CHR 0x0A # x) l ls = t"
    by (simp add: join_newline_def)
  show ?case
    using sp IH by (simp add: join_newline_def foldl_join_Cons)
qed

lemma split_newline_lines: "l \<in> set (split_newline t) \<Longrightarrow> CHR 0x0A \<notin> set l"
  by (induction t arbitrary: l) (auto split: list.splits if_splits)

section \<open>Assignments and the statement bit\<close>

text \<open>
  C2: a write-variable and a write-by-key expression that translate give the assignment in
  parentheses when the context is not a statement and the bare assignment when it is; the
  parts of a write-by-key are translated in expression mode. A write-property expression
  gives the bare assignment in either context.
\<close>

theorem write_var_key_parenthesized_by_context:
  "(visitExpression im scriptTarget (WriteVarExpr n val sp) ctx s = (Inr node, s') \<longrightarrow>
      (\<exists>v. visitExpression im scriptTarget val ctx s = (Inr v, s') \<and>
           node = (if isStatement ctx
                   then ts_createBinary (ts_createIdentifier n) EqualsToken v
                   else ts_createParen (ts_createBinary (ts_createIdentifier n) EqualsToken v))))
   \<and> (visitExpression im scriptTarget (WriteKeyExpr receiver index val sp) ctx s
         = (Inr node, s') \<longrightarrow>
      (\<exists>r i v s1 s2.
           visitExpression im scriptTarget receiver (withExpressionMode ctx) s = (Inr r, s1) \<and>
           visitExpression im scriptTarget index (withExpressionMode ctx) s1 = (Inr i, s2) \<and>
           visitExpression im scriptTarget val (withExpressionMode ctx) s2 = (Inr v, s') \<and>
           node = (if isStatement ctx
                   then ts_createBinary (ts_createElementAccess r i) EqualsToken v
                   else ts_createParen (ts_createBinary (ts_createElementAccess r i) EqualsToken v))))
   \<and> (visitExpression im scriptTarget (WritePropExpr receiver n val sp) ctx s
         = (Inr node, s') \<longrightarrow>
      (\<exists>r v s1.
           visitExpression im scriptTarget receiver ctx s = (Inr r, s1) \<and>
           visitExpression im scriptTarget val ctx s1 = (Inr v, s') \<and>
           node = ts_createBinary (ts_createPropertyAccess r (ts_createIdentifier n))
                    EqualsToken v))"
  by (auto simp: andThen_Inr ok_Inr Let_def)


theorem write_var_key_parenthesized_by_context_witness:
  "visitExpression noAlias ES5 (WriteVarExpr ''a'' (LiteralExpr LNull None) None)
       (Context False) newVisitor
     = (Inr (ts_createParen
               (ts_createBinary (ts_createIdentifier ''a'') EqualsToken ts_createNull)),
        newVisitor)
   \<and> (\<exists>v. visitExpression noAlias ES5 (LiteralExpr LNull None) (Context False) newVisitor
              = (Inr v, newVisitor)
          \<and> ts_createParen (ts_createBinary (ts_createIdentifier ''a'') EqualsToken ts_createNull)
              = ts_createParen (ts_createBinary (ts_createIdentifier ''a'') EqualsToken v))
   \<and> visitExpression noAlias ES5
         (WriteKeyExpr (ReadVarExpr ''a'' None) (ReadVarExpr ''k'' None) (LiteralExpr LNull None) None)
         (Context True) newVisitor
     = (Inr (ts_createBinary
               (ts_createElementAccess (ts_createIdentifier ''a'') (ts_createIdentifier ''k''))
               EqualsToken ts_createNull),
        newVisitor)
   \<and> (\<exists>r i v. ts_createBinary
               (ts_createElementAccess (ts_createIdentifier ''a'') (ts_createIdentifier ''k''))
               EqualsToken ts_createNull
             = ts_createBinary (ts_createElementAccess r i) EqualsToken v)
   \<and> visitExpression noAlias ES5
         (WritePropExpr (ReadVarExpr ''a'' None) ''p'' (LiteralExpr LNull None) None)
         (Context False) newVisitor
     = (Inr (ts_createBinary
               (ts_createPropertyAccess (ts_createIdentifier ''a'') (ts_createIdentifier ''p''))
               EqualsToken ts_createNull),
        newVisitor)
   \<and> (\<exists>r v. ts_createBinary
               (ts_createPropertyAccess (ts_createIdentifier ''a'') (ts_createIdentifier ''p''))
               EqualsToken ts_createNull
             = ts_createBinary (ts_createPropertyAccess r (ts_createIdentifier ''p'')) EqualsToken v)"
proof -
  have v: "visitExpression noAlias ES5 (WriteVarExpr ''a'' (LiteralExpr LNull None) None)
       (Context False) newVisitor
     = (Inr (ts_createParen
               (ts_createBinary (ts_createIdentifier ''a'') EqualsToken ts_createNull)),
        newVisitor)"
    by (simp add: run_simps Let_def)
  have k: "visitExpression noAlias ES5
         (WriteKeyExpr (ReadVarExpr ''a'' None) (ReadVarExpr ''k'' None) (LiteralExpr LNull None) None)
         (Context True) newVisitor
     = (Inr (ts_createBinary
               (ts_createElementAccess (ts_createIdentifier ''a'') (ts_createIdentifier ''k''))
               EqualsToken ts_createNull),
        newVisitor)"
    by (simp add: run_simps Let_def withExpressionMode_def)
  have p: "visitExpression noAlias ES5
         (WritePropExpr (ReadVarExpr ''a'' None) ''p'' (LiteralExpr LNull None) None)
         (Context False) newVisitor
     = (Inr (ts_createBinary
               (ts_createPropertyAccess (ts_createIdentifier ''a'') (ts_createIdentifier ''p''))
               EqualsToken ts_createNull),
        newVisitor)"
    by (simp add: run_simps Let_def)
  note w = write_var_key_parenthesized_by_context
             [where im = noAlias and scriptTarget = ES5 and s = newVisitor and s' = newVisitor
                and val = "LiteralExpr LNull None" and sp = None]
  from w [where n = "''a''" and ctx = "Context False", THEN conjunct1] v
  have ev: "\<exists>v. visitExpression noAlias ES5 (LiteralExpr LNull None) (Context False) newVisitor
              = (Inr v, newVisitor)
          \<and> ts_createParen (ts_createBinary (ts_createIdentifier ''a'') EqualsToken ts_createNull)
              = ts_createParen (ts_createBinary (ts_createIdentifier ''a'') EqualsToken v)"
    by simp
  from w [where receiver = "ReadVarExpr ''a'' None" and index = "ReadVarExpr ''k'' None"
            and ctx = "Context True", THEN conjunct2, THEN conjunct1] k
  have ek: "\<exists>r i v. ts_createBinary
               (ts_createElementAccess (ts_createIdentifier ''a'') (ts_createIdentifier ''k''))
               EqualsToken ts_createNull
             = ts_createBinary (ts_createElementAccess r i) EqualsToken v"
    by blast
  from w [where receiver = "ReadVarExpr ''a'' None" and n = "''p''"
            and ctx = "Context False", THEN conjunct2, THEN conjunct2] p
  have ep: "\<exists>r v. ts_createBinary
               (ts_createPropertyAccess (ts_createIdentifier ''a'') (ts_createIdentifier ''p''))
               EqualsToken ts_createNull
             = ts_createBinary (ts_createPropertyAccess r (ts_createIdentifier ''p'')) EqualsToken v"
    by blast
  from v ev k ek p ep show ?thesis by (intro conjI)
qed

text \<open>
  C10: \<^verbatim>\<open>translateExpression\<close> starts the visit of the expression it is given with a new
  visitor and the statement bit false, \<^verbatim>\<open>translateStatement\<close> with the bit true. So a
  write-variable expression given to \<^verbatim>\<open>translateExpression\<close> comes back as the assignment
  of the translation of its value, made in expression mode, in parentheses; the same
  expression as the expression of an expression statement given to
  \<^verbatim>\<open>translateStatement\<close> has its value translated in statement mode and is the assignment
  without parentheses inside the statement.
\<close>

theorem translateExpression_write_var_parenthesized:
  "translateExpression e im scriptTarget
     = visitExpression im scriptTarget e (Context False) newVisitor
   \<and> translateStatement st im scriptTarget
     = visitStatement im scriptTarget st (Context True) newVisitor
   \<and> (translateExpression (WriteVarExpr n val sp) im scriptTarget = (Inr node, s') \<longrightarrow>
      (\<exists>v. visitExpression im scriptTarget val (Context False) newVisitor = (Inr v, s')
           \<and> node = ts_createParen (ts_createBinary (ts_createIdentifier n) EqualsToken v)
           \<and> shape node
               = TsParen (Node (TsBinary (ts_createIdentifier n) EqualsToken
                                  (parenthesizeRightSideOfBinary EqualsToken
                                     (ts_createIdentifier n) v))
                               None [])))
   \<and> (translateStatement (ExpressionStatement (WriteVarExpr n val sp) comments) im scriptTarget
         = (Inr stmt, s'') \<longrightarrow>
      (\<exists>v. visitExpression im scriptTarget val (Context True) newVisitor = (Inr v, s'')
           \<and> stmt = attachComments
                      (ts_createStatement (ts_createBinary (ts_createIdentifier n) EqualsToken v))
                      comments
           \<and> shape stmt
               = TsExpressionStatement
                   (Node (TsBinary (ts_createIdentifier n) EqualsToken
                            (parenthesizeRightSideOfBinary EqualsToken
                               (ts_createIdentifier n) v))
                         None [])))"
proof (intro conjI impI)
  show "translateExpression e im scriptTarget
          = visitExpression im scriptTarget e (Context False) newVisitor"
    by (simp add: translateExpression_def)
  show "translateStatement st im scriptTarget
          = visitStatement im scriptTarget st (Context True) newVisitor"
    by (simp add: translateStatement_def)
next
  assume "translateExpression (WriteVarExpr n val sp) im scriptTarget = (Inr node, s')"
  then show "\<exists>v. visitExpression im scriptTarget val (Context False) newVisitor = (Inr v, s')
           \<and> node = ts_createParen (ts_createBinary (ts_createIdentifier n) EqualsToken v)
           \<and> shape node
               = TsParen (Node (TsBinary (ts_createIdentifier n) EqualsToken
                                  (parenthesizeRightSideOfBinary EqualsToken
                                     (ts_createIdentifier n) v))
                               None [])"
    by (auto simp: translateExpression_def andThen_Inr ok_Inr Let_def)
next
  assume "translateStatement (ExpressionStatement (WriteVarExpr n val sp) comments) im scriptTarget
            = (Inr stmt, s'')"
  then show "\<exists>v. visitExpression im scriptTarget val (Context True) newVisitor = (Inr v, s'')
           \<and> stmt = attachComments
                      (ts_createStatement (ts_createBinary (ts_createIdentifier n) EqualsToken v))
                      comments
           \<and> shape stmt
               = TsExpressionStatement
                   (Node (TsBinary (ts_createIdentifier n) EqualsToken
                            (parenthesizeRightSideOfBinary EqualsToken
                               (ts_createIdentifier n) v))
                         None [])"
    by (auto simp: translateStatement_def andThen_Inr ok_Inr Let_def
                   withStatementMode_def parenthesizeExpressionOfExpressionStatement_def
                   isObjectLiteralExpression_def isFunctionExpression_def)
qed

lemma run_writeAB:
  "translateExpression writeAB noAlias ES2015
     = (Inr (Node (TsParen assignmentNode) None []), newVisitor)"
  "translateStatement (ExpressionStatement writeAB None) noAlias ES2015
     = (Inr (Node (TsExpressionStatement assignmentNode) None []), newVisitor)"
  by (simp_all add: translateExpression_def translateStatement_def writeAB_def
                    assignmentNode_def identifierNode_def run_simps Let_def
                    withStatementMode_def attachComments_def rules_defs)

theorem translateExpression_write_var_parenthesized_witness:
  "translateExpression writeAB noAlias ES2015
     = (Inr (Node (TsParen assignmentNode) None []), newVisitor)
   \<and> translateStatement (ExpressionStatement writeAB None) noAlias ES2015
     = (Inr (Node (TsExpressionStatement assignmentNode) None []), newVisitor)
   \<and> assignmentNode
     = Node (TsBinary (Node (TsIdentifier ''a'') None []) EqualsToken
               (Node (TsIdentifier ''b'') None [])) None []
   \<and> (\<exists>v. visitExpression noAlias ES2015 (ReadVarExpr ''b'' None) (Context False) newVisitor
              = (Inr v, newVisitor)
          \<and> Node (TsParen assignmentNode) None []
              = ts_createParen (ts_createBinary (ts_createIdentifier ''a'') EqualsToken v))
   \<and> (\<exists>v. visitExpression noAlias ES2015 (ReadVarExpr ''b'' None) (Context True) newVisitor
              = (Inr v, newVisitor)
          \<and> Node (TsExpressionStatement assignmentNode) None []
              = attachComments
                  (ts_createStatement (ts_createBinary (ts_createIdentifier ''a'') EqualsToken v))
                  None)"
proof -
  note w = translateExpression_write_var_parenthesized
             [where im = noAlias and scriptTarget = ES2015 and n = "''a''"
                and val = "ReadVarExpr ''b'' None" and sp = None and comments = None
                and node = "Node (TsParen assignmentNode) None []" and s' = newVisitor
                and stmt = "Node (TsExpressionStatement assignmentNode) None []"
                and s'' = newVisitor]
  from w run_writeAB(1) have e:
    "\<exists>v. visitExpression noAlias ES2015 (ReadVarExpr ''b'' None) (Context False) newVisitor
              = (Inr v, newVisitor)
          \<and> Node (TsParen assignmentNode) None []
              = ts_createParen (ts_createBinary (ts_createIdentifier ''a'') EqualsToken v)"
    unfolding writeAB_def by blast
  from w run_writeAB(2) have s:
    "\<exists>v. visitExpression noAlias ES2015 (ReadVarExpr ''b'' None) (Context True) newVisitor
              = (Inr v, newVisitor)
          \<and> Node (TsExpressionStatement assignmentNode) None []
              = attachComments
                  (ts_createStatement (ts_createBinary (ts_createIdentifier ''a'') EqualsToken v))
                  None"
    unfolding writeAB_def by blast
  have a: "assignmentNode
     = Node (TsBinary (Node (TsIdentifier ''a'') None []) EqualsToken
               (Node (TsIdentifier ''b'') None [])) None []"
    by (simp add: assignmentNode_def identifierNode_def)
  from run_writeAB e s a show ?thesis by (intro conjI)
qed

text \<open>
  C4, as the code has it: an expression statement visits its expression in statement mode;
  return and throw visit theirs in expression mode. The translator puts no parentheses
  around the translated expression: a return and a throw statement hold it as it is, and
  the expression statement is what \<^verbatim>\<open>ts.createStatement\<close> makes of it, which holds it as
  it is unless its leftmost expression is an object literal or a function expression; then
  the library puts it in parentheses, the whole of it or, when it is the call of a function
  expression, the function expression.
\<close>

theorem statements_wrap_expression:
  "(visitStatement im scriptTarget (ExpressionStatement expr comments) ctx s = (Inr node, s') \<longrightarrow>
      (\<exists>e. visitExpression im scriptTarget expr (withStatementMode ctx) s = (Inr e, s')
           \<and> node = attachComments (ts_createStatement e) comments
           \<and> shape node = TsExpressionStatement (parenthesizeExpressionOfExpressionStatement e)
           \<and> (\<not> startsStatementBadly e \<longrightarrow> shape node = TsExpressionStatement e)
           \<and> (startsStatementBadly e \<and> \<not> callsFunctionExpression e \<longrightarrow>
                 shape node = TsExpressionStatement (ts_createParen e))
           \<and> (\<forall>callee args. shape e = TsCall callee args \<and> isFunctionExpression callee \<longrightarrow>
                 shape node
                   = TsExpressionStatement
                       (Node (TsCall (ts_createParen callee)
                                (parenthesizeExpressionsOfCommaDelimitedList args))
                             (sourceMapRange e) (leadingComments e)))))
   \<and> (visitStatement im scriptTarget (ReturnStatement expr comments) ctx s = (Inr node, s') \<longrightarrow>
      (\<exists>e. visitExpression im scriptTarget expr (withExpressionMode ctx) s = (Inr e, s')
           \<and> node = attachComments (ts_createReturn e) comments
           \<and> shape node = TsReturn e))
   \<and> (visitStatement im scriptTarget (ThrowStmt expr comments) ctx s = (Inr node, s') \<longrightarrow>
      (\<exists>e. visitExpression im scriptTarget expr (withExpressionMode ctx) s = (Inr e, s')
           \<and> node = attachComments (ts_createThrow e) comments
           \<and> shape node = TsThrow e))"
proof -
  have bare: "parenthesizeExpressionOfExpressionStatement e = e" if "\<not> startsStatementBadly e" for e
  proof (cases "shape e")
    case (TsCall callee args)
    then have e: "e = Node (TsCall callee args) (sourceMapRange e) (leadingComments e)"
      by (cases e) simp
    have "getLeftmostExpression e False = getLeftmostExpression callee False"
      by (subst e) simp
    with that have "\<not> isFunctionExpression callee"
      by (cases callee; cases "shape callee")
         (auto simp: startsStatementBadly_def isFunctionExpression_def)
    with that TsCall show ?thesis
      by (simp add: parenthesizeExpressionOfExpressionStatement_def startsStatementBadly_def)
  qed (use that in \<open>simp_all add: parenthesizeExpressionOfExpressionStatement_def
                                   startsStatementBadly_def\<close>)
  have whole: "parenthesizeExpressionOfExpressionStatement e = ts_createParen e"
    if "startsStatementBadly e" "\<not> callsFunctionExpression e" for e
    using that
    by (cases "shape e")
       (simp_all add: parenthesizeExpressionOfExpressionStatement_def startsStatementBadly_def
                      callsFunctionExpression_def)
  have callee: "parenthesizeExpressionOfExpressionStatement e
                  = Node (TsCall (ts_createParen callee)
                            (parenthesizeExpressionsOfCommaDelimitedList args))
                         (sourceMapRange e) (leadingComments e)"
    if "shape e = TsCall callee args" "isFunctionExpression callee" for e callee args
    using that
    by (simp add: parenthesizeExpressionOfExpressionStatement_def update_def
                  parenthesizeLeftSideOfAccess_def isLeftHandSideExpression_def
             split: option.splits)
  show ?thesis
    by (auto simp: andThen_Inr ok_Inr bare whole callee)
qed

lemma run_expressions:
  "visitExpression noAlias ES5 writeAB (Context True) newVisitor = (Inr assignmentNode, newVisitor)"
  "visitExpression noAlias ES5 writeAB (Context False) newVisitor
     = (Inr (Node (TsParen assignmentNode) None []), newVisitor)"
  "visitExpression noAlias ES5 mapKX (Context True) newVisitor = (Inr mapNode, newVisitor)"
  "visitExpression noAlias ES5 mapKX (Context False) newVisitor = (Inr mapNode, newVisitor)"
  "visitExpression noAlias ES5 callOfFunction (Context True) newVisitor
     = (Inr (Node (TsCall functionNode []) None []), newVisitor)"
  by (simp_all add: writeAB_def assignmentNode_def mapKX_def mapNode_def callOfFunction_def
                    functionNode_def identifierNode_def run_simps Let_def rules_defs)

lemma run_statements:
  "visitStatement noAlias ES5 (ExpressionStatement writeAB None) (Context True) newVisitor
     = (Inr (Node (TsExpressionStatement assignmentNode) None []), newVisitor)"
  "visitStatement noAlias ES5 (ExpressionStatement mapKX None) (Context True) newVisitor
     = (Inr (Node (TsExpressionStatement (Node (TsParen mapNode) None [])) None []), newVisitor)"
  "visitStatement noAlias ES5 (ExpressionStatement callOfFunction None) (Context True) newVisitor
     = (Inr (Node (TsExpressionStatement
                     (Node (TsCall (Node (TsParen functionNode) None []) []) None []))
                  None []),
        newVisitor)"
  "visitStatement noAlias ES5 (ReturnStatement writeAB None) (Context True) newVisitor
     = (Inr (Node (TsReturn (Node (TsParen assignmentNode) None [])) None []), newVisitor)"
  "visitStatement noAlias ES5 (ThrowStmt writeAB None) (Context True) newVisitor
     = (Inr (Node (TsThrow (Node (TsParen assignmentNode) None [])) None []), newVisitor)"
  by (simp_all add: run_expressions withStatementMode_def withExpressionMode_def run_simps
                    attachComments_def assignmentNode_def mapNode_def functionNode_def
                    identifierNode_def rules_defs)

lemma sample_starts:
  "\<not> startsStatementBadly assignmentNode"
  "startsStatementBadly mapNode" "\<not> callsFunctionExpression mapNode"
  "isFunctionExpression functionNode"
  by (simp_all add: startsStatementBadly_def callsFunctionExpression_def assignmentNode_def
                    mapNode_def functionNode_def identifierNode_def kind_defs)

theorem statements_wrap_expression_witness:
  "visitStatement noAlias ES5 (ExpressionStatement writeAB None) (Context True) newVisitor
     = (Inr (Node (TsExpressionStatement assignmentNode) None []), newVisitor)
   \<and> visitExpression noAlias ES5 writeAB (withStatementMode (Context True)) newVisitor
     = (Inr assignmentNode, newVisitor)
   \<and> \<not> startsStatementBadly assignmentNode
   \<and> visitStatement noAlias ES5 (ExpressionStatement mapKX None) (Context True) newVisitor
     = (Inr (Node (TsExpressionStatement (Node (TsParen mapNode) None [])) None []), newVisitor)
   \<and> visitExpression noAlias ES5 mapKX (withStatementMode (Context True)) newVisitor
     = (Inr mapNode, newVisitor)
   \<and> startsStatementBadly mapNode \<and> \<not> callsFunctionExpression mapNode
   \<and> visitStatement noAlias ES5 (ExpressionStatement callOfFunction None) (Context True) newVisitor
     = (Inr (Node (TsExpressionStatement
                     (Node (TsCall (Node (TsParen functionNode) None []) []) None []))
                  None []),
        newVisitor)
   \<and> visitExpression noAlias ES5 callOfFunction (withStatementMode (Context True)) newVisitor
     = (Inr (Node (TsCall functionNode []) None []), newVisitor)
   \<and> isFunctionExpression functionNode
   \<and> visitStatement noAlias ES5 (ReturnStatement writeAB None) (Context True) newVisitor
     = (Inr (Node (TsReturn (Node (TsParen assignmentNode) None [])) None []), newVisitor)
   \<and> visitStatement noAlias ES5 (ThrowStmt writeAB None) (Context True) newVisitor
     = (Inr (Node (TsThrow (Node (TsParen assignmentNode) None [])) None []), newVisitor)
   \<and> visitExpression noAlias ES5 writeAB (withExpressionMode (Context True)) newVisitor
     = (Inr (Node (TsParen assignmentNode) None []), newVisitor)
   \<and> (\<exists>e. visitExpression noAlias ES5 writeAB (withStatementMode (Context True)) newVisitor
              = (Inr e, newVisitor)
          \<and> Node (TsExpressionStatement assignmentNode) None []
              = attachComments (ts_createStatement e) None)
   \<and> (\<exists>e. visitExpression noAlias ES5 writeAB (withExpressionMode (Context True)) newVisitor
              = (Inr e, newVisitor)
          \<and> Node (TsReturn (Node (TsParen assignmentNode) None [])) None []
              = attachComments (ts_createReturn e) None)
   \<and> (\<exists>e. visitExpression noAlias ES5 writeAB (withExpressionMode (Context True)) newVisitor
              = (Inr e, newVisitor)
          \<and> Node (TsThrow (Node (TsParen assignmentNode) None [])) None []
              = attachComments (ts_createThrow e) None)"
proof -
  note w = statements_wrap_expression
             [where im = noAlias and scriptTarget = ES5 and expr = writeAB and comments = None
                and ctx = "Context True" and s = newVisitor and s' = newVisitor]
  from w [where node = "Node (TsExpressionStatement assignmentNode) None []", THEN conjunct1]
    run_statements(1)
  have e: "\<exists>e. visitExpression noAlias ES5 writeAB (withStatementMode (Context True)) newVisitor
              = (Inr e, newVisitor)
          \<and> Node (TsExpressionStatement assignmentNode) None []
              = attachComments (ts_createStatement e) None"
    by blast
  from w [where node = "Node (TsReturn (Node (TsParen assignmentNode) None [])) None []",
            THEN conjunct2, THEN conjunct1] run_statements(4)
  have r: "\<exists>e. visitExpression noAlias ES5 writeAB (withExpressionMode (Context True)) newVisitor
              = (Inr e, newVisitor)
          \<and> Node (TsReturn (Node (TsParen assignmentNode) None [])) None []
              = attachComments (ts_createReturn e) None"
    by blast
  from w [where node = "Node (TsThrow (Node (TsParen assignmentNode) None [])) None []",
            THEN conjunct2, THEN conjunct2] run_statements(5)
  have t: "\<exists>e. visitExpression noAlias ES5 writeAB (withExpressionMode (Context True)) newVisitor
              = (Inr e, newVisitor)
          \<and> Node (TsThrow (Node (TsParen assignmentNode) None [])) None []
              = attachComments (ts_createThrow e) None"
    by blast
  have m: "visitExpression noAlias ES5 writeAB (withStatementMode (Context True)) newVisitor
             = (Inr assignmentNode, newVisitor)"
    "visitExpression noAlias ES5 mapKX (withStatementMode (Context True)) newVisitor
             = (Inr mapNode, newVisitor)"
    "visitExpression noAlias ES5 callOfFunction (withStatementMode (Context True)) newVisitor
             = (Inr (Node (TsCall functionNode []) None []), newVisitor)"
    "visitExpression noAlias ES5 writeAB (withExpressionMode (Context True)) newVisitor
             = (Inr (Node (TsParen assignmentNode) None []), newVisitor)"
    by (simp_all add: run_expressions withStatementMode_def withExpressionMode_def)
  from run_statements m sample_starts e r t show ?thesis by (intro conjI)
qed

text \<open>
  The inputs on which C4 as stated fails. The expression statement of an assignment holds
  the assignment without parentheses, as statement mode gives it, not in parentheses as
  expression mode gives it. The expression statement of an object literal holds the
  translated object literal in parentheses, which the translator did not put there.
\<close>

theorem expression_statement_mode_counterexample:
  "visitStatement noAlias ES5 (ExpressionStatement writeAB None) (Context True) newVisitor
     = (Inr (Node (TsExpressionStatement assignmentNode) None []), newVisitor)
   \<and> visitExpression noAlias ES5 writeAB (withExpressionMode (Context True)) newVisitor
     = (Inr (Node (TsParen assignmentNode) None []), newVisitor)
   \<and> assignmentNode \<noteq> Node (TsParen assignmentNode) None []
   \<and> visitStatement noAlias ES5 (ExpressionStatement mapKX None) (Context True) newVisitor
     = (Inr (Node (TsExpressionStatement (Node (TsParen mapNode) None [])) None []), newVisitor)
   \<and> visitExpression noAlias ES5 mapKX (withExpressionMode (Context True)) newVisitor
     = (Inr mapNode, newVisitor)
   \<and> visitExpression noAlias ES5 mapKX (withStatementMode (Context True)) newVisitor
     = (Inr mapNode, newVisitor)
   \<and> mapNode \<noteq> Node (TsParen mapNode) None []"
proof -
  have m: "visitExpression noAlias ES5 writeAB (withExpressionMode (Context True)) newVisitor
             = (Inr (Node (TsParen assignmentNode) None []), newVisitor)"
    "visitExpression noAlias ES5 mapKX (withExpressionMode (Context True)) newVisitor
             = (Inr mapNode, newVisitor)"
    "visitExpression noAlias ES5 mapKX (withStatementMode (Context True)) newVisitor
             = (Inr mapNode, newVisitor)"
    by (simp_all add: run_expressions withStatementMode_def withExpressionMode_def)
  have n: "assignmentNode \<noteq> Node (TsParen assignmentNode) None []"
    "mapNode \<noteq> Node (TsParen mapNode) None []"
    by (simp_all add: assignmentNode_def mapNode_def)
  from run_statements(1,2) m n show ?thesis by (intro conjI)
qed

section \<open>Declarations, references and unsupported shapes\<close>

text \<open>
  C5: a declare-variable statement that translates is a variable statement of one
  declaration whose list is flagged \<open>Const\<close> with the final modifier and \<open>Let\<close> without
  it when the target is at least ES2015, and has no flag (\<^verbatim>\<open>var\<close>) below ES2015 whatever
  the modifiers.
\<close>

theorem declare_var_binding_kind:
  assumes "visitStatement im scriptTarget (DeclareVarStmt n val modifiers comments) ctx s
             = (Inr node, s')"
  shows "\<exists>initializer.
           shape node = TsVariableStatement
             (ts_createVariableDeclarationList [ts_createVariableDeclaration n initializer]
                (if targetValue ES2015 \<le> targetValue scriptTarget
                 then (if Final \<in> set modifiers then Const else Let)
                 else NoFlags))"
  using assms by (auto simp: andThen_Inr ok_Inr Let_def)

theorem declare_var_binding_kind_witness:
  "visitStatement noAlias ES2015 (DeclareVarStmt ''x'' None [Final] None) (Context True) newVisitor
     = (Inr (ts_createVariableStatement
               (ts_createVariableDeclarationList [ts_createVariableDeclaration ''x'' None] Const)),
        newVisitor)
   \<and> visitStatement noAlias ES2015 (DeclareVarStmt ''x'' None [] None) (Context True) newVisitor
     = (Inr (ts_createVariableStatement
               (ts_createVariableDeclarationList [ts_createVariableDeclaration ''x'' None] Let)),
        newVisitor)
   \<and> visitStatement noAlias ES5 (DeclareVarStmt ''x'' None [Final] None) (Context True) newVisitor
     = (Inr (ts_createVariableStatement
               (ts_createVariableDeclarationList [ts_createVariableDeclaration ''x'' None] NoFlags)),
        newVisitor)
   \<and> (\<exists>initializer.
         shape (ts_createVariableStatement
                  (ts_createVariableDeclarationList [ts_createVariableDeclaration ''x'' None] Const))
           = TsVariableStatement
               (ts_createVariableDeclarationList [ts_createVariableDeclaration ''x'' initializer]
                  Const))"
  using declare_var_binding_kind
          [where im = noAlias and scriptTarget = ES2015 and n = "''x''" and val = None
             and modifiers = "[Final]" and comments = None and ctx = "Context True"
             and s = newVisitor and s' = newVisitor
             and node = "ts_createVariableStatement
               (ts_createVariableDeclarationList [ts_createVariableDeclaration ''x'' None] Const)"]
  by (simp add: run_simps Let_def attachComments_def)

text \<open>
  C6: an external reference with a symbol name and a module name calls
  \<^verbatim>\<open>generateNamedImport\<close> once with the two names, and is the identifier of the symbol
  returned when no alias comes back, the property access of alias and symbol otherwise.
  Without a module name it is the identifier of the symbol name and the import manager is
  not called. Without a symbol name the visit throws.
\<close>

theorem external_reference_resolution:
  "(name ref = Some n \<and> moduleName ref = Some m
      \<and> moduleImport (im (importCalls s) m n) = None \<longrightarrow>
      visitExpression im scriptTarget (ExternalExpr ref sp) ctx s
        = (Inr (ts_createIdentifier (symbol (im (importCalls s) m n))),
           s\<lparr>importCalls := importCalls s @ [(m, n)]\<rparr>))
   \<and> (name ref = Some n \<and> moduleName ref = Some m
      \<and> moduleImport (im (importCalls s) m n) = Some a \<longrightarrow>
      visitExpression im scriptTarget (ExternalExpr ref sp) ctx s
        = (Inr (ts_createPropertyAccess (ts_createIdentifier a)
                  (ts_createIdentifier (symbol (im (importCalls s) m n)))),
           s\<lparr>importCalls := importCalls s @ [(m, n)]\<rparr>))
   \<and> (name ref = Some n \<and> moduleName ref = None \<longrightarrow>
      visitExpression im scriptTarget (ExternalExpr ref sp) ctx s
        = (Inr (ts_createIdentifier n), s))
   \<and> (name ref = None \<longrightarrow>
      (\<exists>message. visitExpression im scriptTarget (ExternalExpr ref sp) ctx s
                    = (Inl (Error message), s)))"
  by (simp add: run_simps generateNamedImport_def)

theorem external_reference_resolution_witness:
  "visitExpression noAlias ES5
       (ExternalExpr \<lparr>moduleName = Some ''m'', name = Some ''s''\<rparr> None) (Context False) newVisitor
     = (Inr (ts_createIdentifier ''s''), newVisitor\<lparr>importCalls := [(''m'', ''s'')]\<rparr>)
   \<and> visitExpression aliasI0 ES5
       (ExternalExpr \<lparr>moduleName = Some ''m'', name = Some ''s''\<rparr> None) (Context False) newVisitor
     = (Inr (ts_createPropertyAccess (ts_createIdentifier ''i0'') (ts_createIdentifier ''s'')),
        newVisitor\<lparr>importCalls := [(''m'', ''s'')]\<rparr>)
   \<and> visitExpression aliasI0 ES5
       (ExternalExpr \<lparr>moduleName = None, name = Some ''s''\<rparr> None) (Context False) newVisitor
     = (Inr (ts_createIdentifier ''s''), newVisitor)
   \<and> (\<exists>message. visitExpression aliasI0 ES5
          (ExternalExpr \<lparr>moduleName = Some ''m'', name = None\<rparr> None) (Context False) newVisitor
        = (Inl (Error message), newVisitor))"
  using external_reference_resolution
          [where im = noAlias and scriptTarget = ES5 and n = "''s''" and m = "''m''"
             and ref = "\<lparr>moduleName = Some ''m'', name = Some ''s''\<rparr>" and sp = None
             and ctx = "Context False" and s = newVisitor]
        external_reference_resolution
          [where im = aliasI0 and scriptTarget = ES5 and n = "''s''" and m = "''m''"
             and a = "''i0''"
             and ref = "\<lparr>moduleName = Some ''m'', name = Some ''s''\<rparr>" and sp = None
             and ctx = "Context False" and s = newVisitor]
        external_reference_resolution
          [where im = aliasI0 and scriptTarget = ES5 and n = "''s''"
             and ref = "\<lparr>moduleName = None, name = Some ''s''\<rparr>" and sp = None
             and ctx = "Context False" and s = newVisitor]
        external_reference_resolution
          [where im = aliasI0 and scriptTarget = ES5
             and ref = "\<lparr>moduleName = Some ''m'', name = None\<rparr>" and sp = None
             and ctx = "Context False" and s = newVisitor]
  by (simp add: noAlias_def aliasI0_def newVisitor_def)

text \<open>
  C7: a class statement throws at every target, with a message naming the target below
  ES2015; a try-catch statement and a comma expression throw \<^verbatim>\<open>Method not implemented.\<close>;
  a unary or binary operator that has no entry in its table throws. Each of these visits
  gives an error and no node, and leaves the state as it was.
\<close>

theorem unsupported_shapes_fail:
  \<open>visitStatement im scriptTarget (ClassStmt n comments) ctx s
     = (Inl (Error (if targetValue scriptTarget < targetValue ES2015
                    then ''Unsupported mode: Visiting a "declare class" statement (class '' @ n
                         @ '') while targeting '' @ targetName scriptTarget @ ''.''
                    else ''Method not implemented.'')), s)
   \<and> visitStatement im scriptTarget (TryCatchStmt bodyStmts catchStmts comments) ctx s
     = (Inl (Error ''Method not implemented.''), s)
   \<and> visitExpression im scriptTarget (CommaExpr parts sp) ctx s
     = (Inl (Error ''Method not implemented.''), s)
   \<and> (map_of UNARY_OPERATORS uop = None \<longrightarrow>
        visitExpression im scriptTarget (UnaryOperatorExpr uop e sp) ctx s
          = (Inl (Error (''Unknown unary operator: '' @ unaryOperatorName uop)), s))
   \<and> (map_of BINARY_OPERATORS bop = None \<longrightarrow>
        visitExpression im scriptTarget (BinaryOperatorExpr bop l r sp) ctx s
          = (Inl (Error (''Unknown binary operator: '' @ binaryOperatorName bop)), s))\<close>
  by (simp add: run_simps)

theorem unsupported_shapes_fail_witness:
  \<open>map_of UNARY_OPERATORS (OtherUnary ''Not'') = None
   \<and> visitExpression noAlias ES2015
       (UnaryOperatorExpr (OtherUnary ''Not'') (ReadVarExpr ''x'' None) None) (Context False)
       newVisitor
     = (Inl (Error ''Unknown unary operator: Not''), newVisitor)
   \<and> map_of BINARY_OPERATORS (OtherBinary ''Xor'') = None
   \<and> visitExpression noAlias ES2015
       (BinaryOperatorExpr (OtherBinary ''Xor'') (ReadVarExpr ''x'' None) (ReadVarExpr ''y'' None)
          None) (Context False) newVisitor
     = (Inl (Error ''Unknown binary operator: Xor''), newVisitor)
   \<and> visitStatement noAlias ES5 (ClassStmt ''C'' None) (Context True) newVisitor
     = (Inl (Error ''Unsupported mode: Visiting a "declare class" statement (class C) while targeting ES5.''),
        newVisitor)
   \<and> visitStatement noAlias ES2015 (ClassStmt ''C'' None) (Context True) newVisitor
     = (Inl (Error ''Method not implemented.''), newVisitor)\<close>
  using unsupported_shapes_fail
          [where im = noAlias and scriptTarget = ES2015 and uop = "OtherUnary ''Not''"
             and bop = "OtherBinary ''Xor''" and e = "ReadVarExpr ''x'' None"
             and l = "ReadVarExpr ''x'' None" and r = "ReadVarExpr ''y'' None" and sp = None
             and ctx = "Context False" and s = newVisitor and n = "''C''" and comments = None]
        unsupported_shapes_fail
          [where im = noAlias and scriptTarget = ES5 and n = "''C''" and comments = None
             and ctx = "Context True" and s = newVisitor]
  by (simp add: UNARY_OPERATORS_def BINARY_OPERATORS_def)

section \<open>Leading comments\<close>

text \<open>
  C8, as the code has it: the comments of a node after \<^verbatim>\<open>attachComments\<close> are those it
  had followed by the trivia of each leading comment in order. A block comment is one unit
  whose text is what its \<^verbatim>\<open>toString()\<close> gives: the text of the comment with a space
  before it and a space after it, or what a subclass that overrides the method gives. A
  line comment with \<open>n\<close> line breaks is \<open>n + 1\<close> single-line units, its lines in order,
  each with the comment's trailing-newline flag and no line break, which joined by line
  breaks are the text.
\<close>

theorem attachComments_trivia:
  "leadingComments (attachComments statement (Some comments))
     = leadingComments statement @ concat (map commentTrivia comments)
   \<and> shape (attachComments statement (Some comments)) = shape statement
   \<and> (multiline c \<longrightarrow>
        commentTrivia c = [\<lparr>kind = MultiLineCommentTrivia, commentText = toString c,
                            hasTrailingNewLine = trailingNewline c\<rparr>]
        \<and> (toStringOverride c = None \<longrightarrow> toString c = '' '' @ text c @ '' '')
        \<and> (\<forall>t. toStringOverride c = Some t \<longrightarrow> toString c = t))
   \<and> (\<not> multiline c \<longrightarrow>
        length (commentTrivia c) = count_list (text c) (CHR 0x0A) + 1
        \<and> map commentText (commentTrivia c) = split_newline (text c)
        \<and> join_newline (map commentText (commentTrivia c)) = text c
        \<and> list_all (\<lambda>u. kind u = SingleLineCommentTrivia
                           \<and> hasTrailingNewLine u = trailingNewline c
                           \<and> CHR 0x0A \<notin> set (commentText u)) (commentTrivia c))"
  by (auto simp: attachComments_def fold_attachComment commentTrivia_def length_split_newline
                 join_split_newline list_all_iff comp_def toString_def
           dest: split_newline_lines)

theorem attachComments_trivia_witness:
  "multiline blockComment \<and> toStringOverride blockComment = None
   \<and> commentTrivia blockComment
       = [\<lparr>kind = MultiLineCommentTrivia,
           commentText = [CHR '' '', CHR ''c'', CHR 0x0A, CHR ''d'', CHR '' ''],
           hasTrailingNewLine = False\<rparr>]
   \<and> multiline jsDocComment \<and> toStringOverride jsDocComment = Some ''* @pure ''
   \<and> commentTrivia jsDocComment
       = [\<lparr>kind = MultiLineCommentTrivia, commentText = ''* @pure '',
           hasTrailingNewLine = True\<rparr>]
   \<and> \<not> multiline lineComment
   \<and> count_list (text lineComment) (CHR 0x0A) = 1
   \<and> commentTrivia lineComment
       = [\<lparr>kind = SingleLineCommentTrivia, commentText = ''a'', hasTrailingNewLine = True\<rparr>,
          \<lparr>kind = SingleLineCommentTrivia, commentText = ''b'', hasTrailingNewLine = True\<rparr>]
   \<and> join_newline (map commentText (commentTrivia lineComment)) = text lineComment
   \<and> leadingComments
        (attachComments (ts_createReturn ts_createNull)
           (Some [blockComment, jsDocComment, lineComment]))
       = [\<lparr>kind = MultiLineCommentTrivia,
           commentText = [CHR '' '', CHR ''c'', CHR 0x0A, CHR ''d'', CHR '' ''],
           hasTrailingNewLine = False\<rparr>,
          \<lparr>kind = MultiLineCommentTrivia, commentText = ''* @pure '',
           hasTrailingNewLine = True\<rparr>,
          \<lparr>kind = SingleLineCommentTrivia, commentText = ''a'', hasTrailingNewLine = True\<rparr>,
          \<lparr>kind = SingleLineCommentTrivia, commentText = ''b'', hasTrailingNewLine = True\<rparr>]"
  using attachComments_trivia
          [where c = blockComment and statement = "ts_createReturn ts_createNull"
             and comments = "[blockComment, jsDocComment, lineComment]"]
        attachComments_trivia
          [where c = jsDocComment and statement = "ts_createReturn ts_createNull"
             and comments = "[blockComment, jsDocComment, lineComment]"]
        attachComments_trivia
          [where c = lineComment and statement = "ts_createReturn ts_createNull"
             and comments = "[blockComment, jsDocComment, lineComment]"]
  by (simp add: blockComment_def jsDocComment_def lineComment_def commentTrivia_def
                join_newline_def toString_def)

text \<open>
  The input on which C8 as stated fails: the unit of a block comment does not carry the
  exact text of the comment, but the text between two spaces.
\<close>

theorem block_comment_text_counterexample:
  "multiline blockComment
   \<and> text blockComment = [CHR ''c'', CHR 0x0A, CHR ''d'']
   \<and> leadingComments (attachComments (ts_createReturn ts_createNull) (Some [blockComment]))
       = [\<lparr>kind = MultiLineCommentTrivia,
           commentText = [CHR '' '', CHR ''c'', CHR 0x0A, CHR ''d'', CHR '' ''],
           hasTrailingNewLine = False\<rparr>]
   \<and> [CHR '' '', CHR ''c'', CHR 0x0A, CHR ''d'', CHR '' ''] \<noteq> text blockComment"
  by (simp add: blockComment_def attachComments_def attachComment_def toString_def
                ts_addSyntheticLeadingComment_def)

section \<open>Localized strings\<close>

lemma shape_setSourceMapRange:
  "setSourceMapRange n sp s = (r, s') \<Longrightarrow> \<exists>n'. r = Inr n' \<and> shape n' = shape n \<and> leadingComments n' = leadingComments n"
  by (auto simp: setSourceMapRange_def Let_def ts_setSourceMapRange_def split: option.splits if_splits)

lemma setSourceMapRange_Inr:
  "setSourceMapRange n sp s = (Inr n', s') \<Longrightarrow> shape n' = shape n"
  using shape_setSourceMapRange by fastforce

lemma setSourceMapRange_not_Inl [simp]: "setSourceMapRange n sp s \<noteq> (Inl e, s')"
  using shape_setSourceMapRange by fastforce

lemma createLiterals_shapes:
  "createLiterals ast i ts s = (Inr ls, s') \<Longrightarrow>
     map shape ls = map (\<lambda>t. TsLiteral (PString t)) ts"
proof (induction ts arbitrary: i s ls)
  case Nil
  then show ?case by (simp add: ok_Inr)
next
  case (Cons t ts)
  then show ?case
    by (auto simp: andThen_Inr ok_Inr createLiteral_def dest!: setSourceMapRange_Inr)
qed

lemma stringLiterals_shapes:
  "map shape ls = map (\<lambda>t. TsLiteral (PString t)) ts \<Longrightarrow>
     concat (map (\<lambda>e. case shape e of TsLiteral (PString t) \<Rightarrow> [t] | _ \<Rightarrow> []) ls) = ts"
proof (induction ls arbitrary: ts)
  case Nil
  then show ?case by simp
next
  case (Cons l ls)
  then obtain t ts' where "ts = t # ts'" by (cases ts) auto
  with Cons show ?case by auto
qed

lemma stringLiterals_array:
  "map shape ls = map (\<lambda>t. TsLiteral (PString t)) ts \<Longrightarrow>
     stringLiterals (ts_createArrayLiteral ls) = ts"
  by (simp add: stringLiterals_def comma_list_literals stringLiterals_shapes)

lemma localizeArguments_result:
  assumes "localizeArguments ast i visits s = (Inr (es, parts), s')"
    and "i + length visits = messageParts_length ast"
  shows "length es = length visits
         \<and> parts = map (serializeI18nTemplatePart ast) [i..<messageParts_length ast]
         \<and> (\<forall>j<length visits. \<exists>st st'. (visits ! j) st = (Inr (es ! j), st'))"
  using assms
proof (induction visits arbitrary: i s es parts)
  case Nil
  then show ?case by (simp add: ok_Inr)
next
  case (Cons v rest)
  from Cons.prems have lt: "i < messageParts_length ast" by simp
  with Cons.prems obtain x s1 vs ps where
    v: "v s = (Inr x, s1)" and
    rec: "localizeArguments ast (Suc i) rest s1 = (Inr (vs, ps), s')" and
    es: "es = x # vs" and parts: "parts = serializeI18nTemplatePart ast i # ps"
    by (auto simp: andThen_Inr ok_Inr split: prod.splits)
  from Cons.prems have "Suc i + length rest = messageParts_length ast" by simp
  from Cons.IH [OF rec this] have
    IH1: "length vs = length rest" and
    IH2: "ps = map (serializeI18nTemplatePart ast) [Suc i..<messageParts_length ast]" and
    IH3: "\<forall>j<length rest. \<exists>st st'. (rest ! j) st = (Inr (vs ! j), st')"
    by simp_all
  have "\<exists>st st'. ((v # rest) ! j) st = (Inr (es ! j), st')" if "j < length (v # rest)" for j
  proof (cases j)
    case 0
    with v es show ?thesis by auto
  next
    case (Suc j')
    with that IH3 es show ?thesis by simp
  qed
  with IH1 IH2 es parts lt show ?case by (simp add: upt_conv_Cons)
qed

lemma templateSpans_result:
  assumes "templateSpans ast i visits s = (Inr spans, s')"
    and "0 < i" and "i + length visits = messageParts_length ast"
  shows "\<exists>es lits.
           spans = map2 ts_createTemplateSpan es lits
           \<and> length es = length visits \<and> length lits = length visits
           \<and> concat (map literalPart lits)
               = map (serializeI18nTemplatePart ast) [i..<messageParts_length ast]
           \<and> (\<forall>j<length visits. \<exists>v st st' st''.
                 (visits ! j) st = (Inr v, st')
                 \<and> setSourceMapRange v (getPlaceholderSourceSpan ast (i - 1 + j)) st'
                     = (Inr (es ! j), st''))"
  using assms
proof (induction visits arbitrary: i s spans)
  case Nil
  then show ?case by (simp add: throw_def)
next
  case (Cons v rest)
  let ?len = "messageParts_length ast"
  show ?case
  proof (cases "Suc i < ?len")
    case True
    with Cons.prems obtain x s1 e s2 m s3 rs where
      v: "v s = (Inr x, s1)" and
      e: "setSourceMapRange x (getPlaceholderSourceSpan ast (i - 1)) s1 = (Inr e, s2)" and
      m: "setSourceMapRange
            (createTemplateMiddle (cooked (serializeI18nTemplatePart ast i))
               (raw (serializeI18nTemplatePart ast i)))
            (getMessagePartSourceSpan ast i) s2 = (Inr m, s3)" and
      rec: "templateSpans ast (Suc i) rest s3 = (Inr rs, s')" and
      spans: "spans = ts_createTemplateSpan e m # rs"
      by (auto simp: andThen_Inr ok_Inr Let_def)
    from Cons.prems have "Suc i + length rest = ?len" by simp
    from Cons.IH [OF rec _ this] obtain es lits where
      IH1: "rs = map2 ts_createTemplateSpan es lits" and
      IH2: "length es = length rest" "length lits = length rest" and
      IH3: "concat (map literalPart lits) = map (serializeI18nTemplatePart ast) [Suc i..<?len]" and
      IH4: "\<forall>j<length rest. \<exists>v st st' st''.
              (rest ! j) st = (Inr v, st')
              \<and> setSourceMapRange v (getPlaceholderSourceSpan ast (Suc i - 1 + j)) st'
                  = (Inr (es ! j), st'')"
      by auto
    have lit: "literalPart m = [serializeI18nTemplatePart ast i]"
      using setSourceMapRange_Inr [OF m] by (simp add: literalPart_def)
    have each: "\<exists>v' st st' st''.
              ((v # rest) ! j) st = (Inr v', st')
              \<and> setSourceMapRange v' (getPlaceholderSourceSpan ast (i - 1 + j)) st'
                  = (Inr ((e # es) ! j), st'')" if "j < length (v # rest)" for j
    proof (cases j)
      case 0
      with v e show ?thesis by auto
    next
      case (Suc j')
      with that IH4 Cons.prems(2) show ?thesis by simp
    qed
    show ?thesis
      apply (rule exI [of _ "e # es"])
      apply (rule exI [of _ "m # lits"])
      using spans IH1 IH2 IH3 lit each True by (simp add: upt_conv_Cons)
  next
    case False
    from Cons.prems(3) have "Suc (i + length rest) = ?len" by simp
    with False have "length rest = 0" by linarith
    then have rest: "rest = []" by simp
    with Cons.prems(3) have len: "?len = Suc i" by simp
    with Cons.prems False obtain x s1 e s2 m where
      v: "v s = (Inr x, s1)" and
      e: "setSourceMapRange x (getPlaceholderSourceSpan ast (i - 1)) s1 = (Inr e, s2)" and
      m: "setSourceMapRange
            (createTemplateTail (cooked (serializeI18nTemplatePart ast i))
               (raw (serializeI18nTemplatePart ast i)))
            (getMessagePartSourceSpan ast i) s2 = (Inr m, s')" and
      spans: "spans = [ts_createTemplateSpan e m]"
      by (auto simp: andThen_Inr ok_Inr Let_def numeral_2_eq_2 split: if_splits)
    have lit: "literalPart m = [serializeI18nTemplatePart ast i]"
      using setSourceMapRange_Inr [OF m] by (simp add: literalPart_def)
    show ?thesis
      apply (rule exI [of _ "[e]"])
      apply (rule exI [of _ "[m]"])
      using spans lit v e len rest by auto
  qed
qed

lemma spanExpression_map2:
  "length es = length lits \<Longrightarrow>
     concat (map spanExpression (map2 ts_createTemplateSpan es lits)) = es"
  by (induction es lits rule: list_induct2) (simp_all add: spanExpression_def)

lemma spanLiteral_map2:
  "length es = length lits \<Longrightarrow>
     concat (map spanLiteral (map2 ts_createTemplateSpan es lits)) = concat (map literalPart lits)"
  by (induction es lits rule: list_induct2) (simp_all add: spanLiteral_def)

lemma taggedTemplate_result:
  assumes run: "createLocalizedStringTaggedTemplate ast visits sp s = (Inr n, s')"
    and len: "messageParts_length ast = Suc (length visits)"
  shows "(\<exists>template. shape n = TsTaggedTemplate (ts_createIdentifier ''$localize'') template)
         \<and> length (splicedExpressions n) = length visits
         \<and> messageText n
             = serializeI18nHead ast
               # map (serializeI18nTemplatePart ast) [1..<Suc (length visits)]
         \<and> (\<forall>j<length visits. \<exists>v st st' st''.
               (visits ! j) st = (Inr v, st')
               \<and> setSourceMapRange v (getPlaceholderSourceSpan ast j) st'
                   = (Inr (splicedExpressions n ! j), st''))"
proof (cases "visits = []")
  case True
  with run len obtain template s1 where
    t: "setSourceMapRange
          (ts_createNoSubstitutionTemplateLiteral (cooked (serializeI18nHead ast))
             (raw (serializeI18nHead ast)))
          (getMessagePartSourceSpan ast 0) s = (Inr template, s1)" and
    n: "setSourceMapRange
          (ts_createTaggedTemplate (ts_createIdentifier ''$localize'') template) sp s1
        = (Inr n, s')"
    by (auto simp: createLocalizedStringTaggedTemplate_def Let_def andThen_Inr)
  from setSourceMapRange_Inr [OF t] setSourceMapRange_Inr [OF n] True
  show ?thesis
    by (simp add: splicedExpressions_def messageText_def literalPart_def)
next
  case False
  with len have ne: "messageParts_length ast \<noteq> 1" by simp
  with run obtain h s1 spans s2 where
    h: "setSourceMapRange
          (ts_createTemplateHead (cooked (serializeI18nHead ast)) (raw (serializeI18nHead ast)))
          (getMessagePartSourceSpan ast 0) s = (Inr h, s1)" and
    spans: "templateSpans ast 1 visits s1 = (Inr spans, s2)" and
    n: "setSourceMapRange
          (ts_createTaggedTemplate (ts_createIdentifier ''$localize'')
             (ts_createTemplateExpression h spans)) sp s2
        = (Inr n, s')"
    by (auto simp: createLocalizedStringTaggedTemplate_def Let_def andThen_Inr ok_Inr)
  from len have "1 + length visits = messageParts_length ast" by simp
  from templateSpans_result [OF spans _ this] obtain es lits where
    sp1: "spans = map2 ts_createTemplateSpan es lits" and
    sp2: "length es = length visits" "length lits = length visits" and
    sp3: "concat (map literalPart lits)
            = map (serializeI18nTemplatePart ast) [1..<messageParts_length ast]" and
    sp4: "\<forall>j<length visits. \<exists>v st st' st''.
            (visits ! j) st = (Inr v, st')
            \<and> setSourceMapRange v (getPlaceholderSourceSpan ast (1 - 1 + j)) st'
                = (Inr (es ! j), st'')"
    by auto
  have "concat (map spanExpression spans) = es"
    unfolding sp1 using sp2 by (intro spanExpression_map2) simp
  then have spliced: "splicedExpressions n = es"
    using setSourceMapRange_Inr [OF n] by (simp add: splicedExpressions_def)
  have "concat (map spanLiteral spans) = concat (map literalPart lits)"
    unfolding sp1 using sp2 by (intro spanLiteral_map2) simp
  then have mtext: "messageText n = literalPart h @ concat (map literalPart lits)"
    using setSourceMapRange_Inr [OF n] by (simp add: messageText_def)
  have "literalPart h = [serializeI18nHead ast]"
    using setSourceMapRange_Inr [OF h] by (simp add: literalPart_def)
  with mtext sp3 len sp4 sp2 spliced setSourceMapRange_Inr [OF n]
  show ?thesis by simp
qed

lemma functionCall_result:
  assumes run: "createLocalizedStringFunctionCall im ast visits s = (Inr n, s')"
    and len: "messageParts_length ast = Suc (length visits)"
  shows "(\<exists>templateObject.
            shape n = TsCall (ts_createIdentifier ''$localize'')
                        (templateObject # splicedExpressions n))
         \<and> length (splicedExpressions n) = length visits
         \<and> messageText n
             = serializeI18nHead ast
               # map (serializeI18nTemplatePart ast) [1..<Suc (length visits)]
         \<and> (\<forall>j<length visits. \<exists>v st st'.
               (visits ! j) st = (Inr v, st')
               \<and> splicedExpressions n ! j = parenthesizeExpressionForDisallowedComma v)"
proof -
  from run obtain es parts s1 imp s2 cookedLiterals s3 rawLiterals helper where
    args: "localizeArguments ast 1 visits s = (Inr (es, parts), s1)" and
    c: "createLiterals ast 0 (map cooked (serializeI18nHead ast # parts)) s2
          = (Inr cookedLiterals, s3)" and
    r: "createLiterals ast 0 (map raw (serializeI18nHead ast # parts)) s3
          = (Inr rawLiterals, s')" and
    n: "n = ts_createCall (ts_createIdentifier ''$localize'')
              (ts_createCall helper
                 [ts_createArrayLiteral cookedLiterals, ts_createArrayLiteral rawLiterals]
               # es)"
    by (auto simp: createLocalizedStringFunctionCall_def Let_def andThen_Inr ok_Inr
             simp del: createLiterals.simps list.map split: prod.splits)
  from len have "1 + length visits = messageParts_length ast" by simp
  from localizeArguments_result [OF args this] have
    a1: "length es = length visits" and
    a2: "parts = map (serializeI18nTemplatePart ast) [1..<messageParts_length ast]" and
    a3: "\<forall>j<length visits. \<exists>st st'. (visits ! j) st = (Inr (es ! j), st')"
    by simp_all
  have sc: "stringLiterals (ts_createArrayLiteral cookedLiterals)
              = map cooked (serializeI18nHead ast # parts)"
    by (rule stringLiterals_array [OF createLiterals_shapes [OF c]])
  have sr: "stringLiterals (ts_createArrayLiteral rawLiterals)
              = map raw (serializeI18nHead ast # parts)"
    by (rule stringLiterals_array [OF createLiterals_shapes [OF r]])
  have zip: "map (\<lambda>(c, r). \<lparr>cooked = c, raw = r\<rparr>) (zip (map cooked ps) (map raw ps)) = ps"
    for ps :: "CookedRaw list"
    by (induction ps) simp_all
  have mtext: "messageText n = serializeI18nHead ast # parts"
    unfolding n messageText_def using zip [of "serializeI18nHead ast # parts"]
    by (simp add: sc sr del: list.map)
  have spliced: "splicedExpressions n = parenthesizeExpressionsOfCommaDelimitedList es"
    by (simp add: n splicedExpressions_def)
  have each: "\<exists>v st st'. (visits ! j) st = (Inr v, st')
                \<and> splicedExpressions n ! j = parenthesizeExpressionForDisallowedComma v"
    if "j < length visits" for j
  proof -
    from a3 that obtain st st' where "(visits ! j) st = (Inr (es ! j), st')" by blast
    moreover have "splicedExpressions n ! j = parenthesizeExpressionForDisallowedComma (es ! j)"
      using a1 that by (simp add: spliced comma_list_nth)
    ultimately show ?thesis by blast
  qed
  from mtext spliced a1 a2 each len n show ?thesis by simp
qed

text \<open>
  C3: for a localized string of \<open>k\<close> expressions and \<open>k + 1\<close> message parts, a target of at
  least ES2015 gives the template tagged \<^verbatim>\<open>$localize\<close> and a target below it gives the
  call of \<^verbatim>\<open>$localize\<close>. Each has exactly \<open>k\<close> spliced expressions, the \<open>j\<close>-th being a
  translation of the \<open>j\<close>-th expression (in the tagged template with the range of its
  placeholder set on it; in the call as \<^verbatim>\<open>ts.createCall\<close> holds an argument, which is
  the translation itself unless that is a comma expression or no expression at all, which
  the library puts in parentheses), and the literal text of both is the serialized head
  followed by the serialized parts 1 to \<open>k\<close>.
\<close>

theorem localized_string_lowerings:
  assumes parts: "messageParts_length ast = Suc k"
    and exprs: "length expressions = k"
    and modern: "targetValue ES2015 \<le> targetValue modern"
    and legacy: "targetValue legacy < targetValue ES2015"
    and run1: "visitExpression im modern (LocalizedString ast expressions sp) ctx s1 = (Inr n1, s1')"
    and run2: "visitExpression im legacy (LocalizedString ast expressions sp) ctx s2 = (Inr n2, s2')"
  shows "(\<exists>template. shape n1 = TsTaggedTemplate (ts_createIdentifier ''$localize'') template)
         \<and> (\<exists>templateObject.
               shape n2 = TsCall (ts_createIdentifier ''$localize'')
                            (templateObject # splicedExpressions n2))
         \<and> length (splicedExpressions n1) = k
         \<and> length (splicedExpressions n2) = k
         \<and> (\<forall>j<k. \<exists>v st st' st''.
               visitExpression im modern (expressions ! j) ctx st = (Inr v, st')
               \<and> setSourceMapRange v (getPlaceholderSourceSpan ast j) st'
                   = (Inr (splicedExpressions n1 ! j), st''))
         \<and> (\<forall>j<k. \<exists>v st st'.
               visitExpression im legacy (expressions ! j) ctx st = (Inr v, st')
               \<and> splicedExpressions n2 ! j = parenthesizeExpressionForDisallowedComma v
               \<and> (0 < getExpressionPrecedence v \<longrightarrow> splicedExpressions n2 ! j = v))
         \<and> messageText n1
             = serializeI18nHead ast # map (serializeI18nTemplatePart ast) [1..<Suc k]
         \<and> messageText n2 = messageText n1"
proof -
  let ?v1 = "map (\<lambda>e. visitExpression im modern e ctx) expressions"
  let ?v2 = "map (\<lambda>e. visitExpression im legacy e ctx) expressions"
  from run1 modern obtain m1 t1 where
    m1: "createLocalizedStringTaggedTemplate ast ?v1 sp s1 = (Inr m1, t1)" and
    n1: "shape n1 = shape m1"
    by (auto simp: Let_def andThen_Inr dest: setSourceMapRange_Inr)
  from run2 legacy obtain m2 t2 where
    m2: "createLocalizedStringFunctionCall im ast ?v2 s2 = (Inr m2, t2)" and
    n2: "shape n2 = shape m2"
    by (auto simp: Let_def andThen_Inr dest: setSourceMapRange_Inr)
  have sp1: "splicedExpressions n1 = splicedExpressions m1"
    and sp2: "splicedExpressions n2 = splicedExpressions m2"
    and mt1: "messageText n1 = messageText m1"
    and mt2: "messageText n2 = messageText m2"
    by (simp_all add: splicedExpressions_def messageText_def n1 n2)
  from parts exprs have len1: "messageParts_length ast = Suc (length ?v1)"
    and len2: "messageParts_length ast = Suc (length ?v2)"
    by simp_all
  note r1 = taggedTemplate_result [OF m1 len1]
  note r2 = functionCall_result [OF m2 len2]
  have each: "\<exists>v st st'.
               visitExpression im legacy (expressions ! j) ctx st = (Inr v, st')
               \<and> splicedExpressions n2 ! j = parenthesizeExpressionForDisallowedComma v
               \<and> (0 < getExpressionPrecedence v \<longrightarrow> splicedExpressions n2 ! j = v)"
    if "j < k" for j
  proof -
    from r2 that exprs obtain v st st' where
      "visitExpression im legacy (expressions ! j) ctx st = (Inr v, st')"
      "splicedExpressions m2 ! j = parenthesizeExpressionForDisallowedComma v"
      by fastforce
    then have "visitExpression im legacy (expressions ! j) ctx st = (Inr v, st')
               \<and> splicedExpressions n2 ! j = parenthesizeExpressionForDisallowedComma v
               \<and> (0 < getExpressionPrecedence v \<longrightarrow> splicedExpressions n2 ! j = v)"
      by (simp add: sp2 comma_primary)
    then show ?thesis by blast
  qed
  from r1 r2 exprs each show ?thesis
    by (simp add: sp1 sp2 mt1 mt2 n1 n2)
qed

lemma run_taggedTwo:
  "visitExpression noAlias ES2015 localizedTwo (Context False) newVisitor
     = (Inr taggedTwo, newVisitor)"
  by (simp add: localizedTwo_def i18nTwo_def taggedTwo_def run_simps Let_def
                createLocalizedStringTaggedTemplate_def)

lemma run_calledTwo:
  "visitExpression noAlias ES5 localizedTwo (Context False) newVisitor
     = (Inr calledTwo, newVisitor\<lparr>importCalls := [(''tslib'', ''__makeTemplateObject'')]\<rparr>)"
  by (simp add: localizedTwo_def i18nTwo_def calledTwo_def run_simps Let_def
                createLocalizedStringFunctionCall_def generateNamedImport_def noAlias_def
                createLiteral_def newVisitor_def)

theorem localized_string_lowerings_witness:
  "messageParts_length i18nTwo = Suc 2
   \<and> visitExpression noAlias ES2015 localizedTwo (Context False) newVisitor
       = (Inr taggedTwo, newVisitor)
   \<and> visitExpression noAlias ES5 localizedTwo (Context False) newVisitor
       = (Inr calledTwo, newVisitor\<lparr>importCalls := [(''tslib'', ''__makeTemplateObject'')]\<rparr>)
   \<and> length (splicedExpressions taggedTwo) = 2
   \<and> length (splicedExpressions calledTwo) = 2
   \<and> messageText calledTwo = messageText taggedTwo
   \<and> messageText taggedTwo
       = [\<lparr>cooked = '':m:a'', raw = '':m:a''\<rparr>, \<lparr>cooked = '':x:b'', raw = '':x:b''\<rparr>,
          \<lparr>cooked = '':y:c'', raw = '':y:c''\<rparr>]"
proof -
  have p: "messageParts_length i18nTwo = Suc 2" by (simp add: i18nTwo_def)
  have e: "length [ReadVarExpr ''p'' None, ReadVarExpr ''q'' None] = 2" by simp
  have m: "targetValue ES2015 \<le> targetValue ES2015" by simp
  have l: "targetValue ES5 < targetValue ES2015" by simp
  note w = localized_string_lowerings
             [OF p e m l run_taggedTwo [unfolded localizedTwo_def]
                 run_calledTwo [unfolded localizedTwo_def]]
  have t: "serializeI18nHead i18nTwo # map (serializeI18nTemplatePart i18nTwo) [1..<Suc 2]
             = [\<lparr>cooked = '':m:a'', raw = '':m:a''\<rparr>, \<lparr>cooked = '':x:b'', raw = '':x:b''\<rparr>,
                \<lparr>cooked = '':y:c'', raw = '':y:c''\<rparr>]"
    by (simp add: i18nTwo_def upt_conv_Cons)
  from w p run_taggedTwo run_calledTwo t show ?thesis by simp
qed

section \<open>Source mapping\<close>

lemma cacheStep_refl [simp]: "cacheStep s s"
  by (simp add: cacheStep_def)

lemma cacheStep_trans: "cacheStep s t \<Longrightarrow> cacheStep t u \<Longrightarrow> cacheStep s u"
  by (auto simp: cacheStep_def)

lemma keepsCache_ok [simp]: "keepsCache (ok a)"
  by (simp add: keepsCache_def ok_def)

lemma keepsCache_throw [simp]: "keepsCache (throw e)"
  by (simp add: keepsCache_def throw_def)

lemma keepsCache_andThen:
  "keepsCache m \<Longrightarrow> (\<And>a. keepsCache (f a)) \<Longrightarrow> keepsCache (andThen m f)"
proof -
  assume m: "keepsCache m" and f: "\<And>a. keepsCache (f a)"
  show ?thesis
    unfolding keepsCache_def
  proof (intro allI impI)
    fix s r s'
    assume run: "andThen m f s = (r, s')"
    obtain r1 s1 where ms: "m s = (r1, s1)" by (cases "m s")
    with m have step1: "cacheStep s s1" by (simp add: keepsCache_def)
    show "cacheStep s s'"
    proof (cases r1)
      case (Inl e)
      with run ms have "s' = s1" by (simp add: andThen_def)
      with step1 show ?thesis by simp
    next
      case (Inr a)
      with run ms have "f a s1 = (r, s')" by (simp add: andThen_def)
      with f have "cacheStep s1 s'" by (simp add: keepsCache_def)
      with step1 show ?thesis by (rule cacheStep_trans)
    qed
  qed
qed

lemma keepsCache_generateNamedImport [simp]: "keepsCache (generateNamedImport im m n)"
  by (simp add: keepsCache_def generateNamedImport_def cacheStep_def)

lemma keepsCache_recordUsedIdentifier [simp]: "keepsCache (recordUsedIdentifier n)"
  by (simp add: keepsCache_def recordUsedIdentifier_def cacheStep_def)

lemma sourceFilesOK_append:
  "sourceFilesOK files \<Longrightarrow> map_of files u = None \<Longrightarrow> u \<noteq> [] \<Longrightarrow>
     sourceFilesOK (files @ [(u, ts_createSourceMapSource u c)])"
  by (auto simp: sourceFilesOK_def ts_createSourceMapSource_def map_of_eq_None_iff)

lemma keepsCache_setSourceMapRange [simp]: "keepsCache (setSourceMapRange n sp)"
  by (auto simp: keepsCache_def setSourceMapRange_def Let_def cacheStep_def
           intro: sourceFilesOK_append split: option.splits if_splits)

lemma keepsCache_createLiteral [simp]: "keepsCache (createLiteral t sp)"
  by (simp add: createLiteral_def)

lemma keepsCache_createLiterals [simp]: "keepsCache (createLiterals ast i ts)"
  by (induction ts arbitrary: i) (auto intro!: keepsCache_andThen)

lemma keepsCache_inOrder:
  "(\<And>m. m \<in> set ms \<Longrightarrow> keepsCache m) \<Longrightarrow> keepsCache (inOrder ms)"
  by (induction ms) (auto intro!: keepsCache_andThen)

lemma keepsCache_templateSpans:
  "(\<And>m. m \<in> set ms \<Longrightarrow> keepsCache m) \<Longrightarrow> keepsCache (templateSpans ast i ms)"
  by (induction ms arbitrary: i) (auto intro!: keepsCache_andThen simp: Let_def)

lemma keepsCache_localizeArguments:
  "(\<And>m. m \<in> set ms \<Longrightarrow> keepsCache m) \<Longrightarrow> keepsCache (localizeArguments ast i ms)"
  by (induction ms arbitrary: i) (auto intro!: keepsCache_andThen simp: Let_def split: prod.splits)

lemma keepsCache_taggedTemplate:
  "(\<And>m. m \<in> set ms \<Longrightarrow> keepsCache m) \<Longrightarrow>
     keepsCache (createLocalizedStringTaggedTemplate ast ms sp)"
  by (auto simp: createLocalizedStringTaggedTemplate_def Let_def
           intro!: keepsCache_andThen keepsCache_templateSpans)

lemma keepsCache_functionCall:
  "(\<And>m. m \<in> set ms \<Longrightarrow> keepsCache m) \<Longrightarrow>
     keepsCache (createLocalizedStringFunctionCall im ast ms)"
  by (auto simp: createLocalizedStringFunctionCall_def Let_def
           simp del: createLiterals.simps
           intro!: keepsCache_andThen keepsCache_localizeArguments split: prod.splits)

lemma keepsCache_visit:
  "keepsCache (visitExpression im t e ctx)"
  "keepsCache (visitEntry im t en ctx)"
  "keepsCache (visitStatement im t st ctx)"
  by (induction e and en and st arbitrary: ctx and ctx and ctx)
     (auto simp: Let_def
           intro!: keepsCache_andThen keepsCache_inOrder keepsCache_taggedTemplate
                   keepsCache_functionCall
           split: option.splits)

lemma keepsCacheD: "keepsCache m \<Longrightarrow> m s = (r, s') \<Longrightarrow> cacheStep s s'"
  by (simp add: keepsCache_def)

lemma prefix_map_of:
  "prefix xs ys \<Longrightarrow> map_of xs u = Some d \<Longrightarrow> map_of ys u = Some d"
  by (auto simp: prefix_def)

lemma sourceFilesOK_map_of:
  "sourceFilesOK files \<Longrightarrow> map_of files u = Some d \<Longrightarrow> fileName d = u \<and> u \<noteq> []"
  by (auto simp: sourceFilesOK_def list_all_iff dest!: map_of_SomeD)

lemma setSourceMapRange_files:
  "setSourceMapRange n (Some sp) s = (r, s') \<Longrightarrow> url (file (start sp)) \<noteq> [] \<Longrightarrow>
     externalSourceFiles s'
       = (if map_of (externalSourceFiles s) (url (file (start sp))) = None
          then externalSourceFiles s
               @ [(url (file (start sp)),
                   \<lparr>fileName = url (file (start sp)), sourceText = content (file (start sp))\<rparr>)]
          else externalSourceFiles s)"
  by (auto simp: setSourceMapRange_def Let_def ts_createSourceMapSource_def split: if_splits)

lemma setSourceMapRange_range:
  "setSourceMapRange n sp s = (Inr n', s') \<Longrightarrow>
     sourceMapRange n' = (case spanRange sp s' of None \<Rightarrow> sourceMapRange n | Some x \<Rightarrow> Some x)"
  by (auto simp: setSourceMapRange_def Let_def spanRange_def ts_setSourceMapRange_def
           split: option.splits if_splits)

lemma setSourceMapRange_fresh:
  "setSourceMapRange n sp s = (Inr n', s') \<Longrightarrow> sourceMapRange n = None \<Longrightarrow>
     sourceMapRange n' = spanRange sp s'"
  by (drule setSourceMapRange_range) (simp split: option.splits)

lemma setSourceMapRange_known:
  "setSourceMapRange n (Some sp) s = (r, s') \<Longrightarrow> url (file (start sp)) \<noteq> [] \<Longrightarrow>
     map_of (externalSourceFiles s') (url (file (start sp))) \<noteq> None"
  by (auto simp: setSourceMapRange_def Let_def map_add_def split: if_splits)

lemma setSourceMapRange_again:
  "setSourceMapRange n sp s = (Inr n', s') \<Longrightarrow> sourceMapRange n = spanRange sp s0 \<Longrightarrow>
     sourceMapRange n' = spanRange sp s'"
  by (drule setSourceMapRange_range) (auto simp: spanRange_def split: option.splits if_splits)

lemma taggedTemplate_range:
  "createLocalizedStringTaggedTemplate ast visits sp s = (Inr n, s') \<Longrightarrow>
     sourceMapRange n = spanRange sp s'"
  by (auto simp: createLocalizedStringTaggedTemplate_def Let_def andThen_Inr
           dest!: setSourceMapRange_fresh split: if_splits)

lemma functionCall_range:
  "createLocalizedStringFunctionCall im ast visits s = (Inr n, s') \<Longrightarrow> sourceMapRange n = None"
  by (auto simp: createLocalizedStringFunctionCall_def Let_def andThen_Inr ok_Inr
           simp del: createLiterals.simps split: prod.splits)

lemma own_range:
  assumes "visitExpression im t e ctx s = (Inr node, s')" and "mapsOwnSpan e"
  shows "sourceMapRange node = spanRange (sourceSpan e) s'"
proof (cases e)
  case (LocalizedString ast es sp)
  with assms(1) show ?thesis
    by (auto simp: Let_def andThen_Inr
             dest!: taggedTemplate_range functionCall_range
             dest: setSourceMapRange_again setSourceMapRange_fresh split: if_splits)
qed (use assms in \<open>auto simp: Let_def andThen_Inr ts_addSyntheticLeadingComment_def
                       dest!: setSourceMapRange_fresh split: LiteralValue.splits\<close>)

lemma own_descriptor:
  assumes "visitExpression im t e ctx s = (Inr node, s')" and "mapsOwnSpan e"
    and "sourceSpan e = Some sp" and "url (file (start sp)) \<noteq> []"
  shows "map_of (externalSourceFiles s') (url (file (start sp))) \<noteq> None"
proof (cases e)
  case (LocalizedString ast es sp')
  with assms show ?thesis
    by (auto simp: Let_def andThen_Inr dest: setSourceMapRange_known)
qed (use assms in \<open>auto simp: Let_def andThen_Inr dest: setSourceMapRange_known\<close>)

lemma unmapped_node:
  assumes "visitExpression im t e ctx s = (Inr node, s')" and "buildsUnmappedNode e"
  shows "sourceMapRange node = None"
  using assms
  by (cases e)
     (auto simp: Let_def andThen_Inr ok_Inr throw_def generateNamedImport_def
           split: option.splits if_splits)

lemma translate_sourceFilesOK:
  "sourceFilesOK (externalSourceFiles (snd (translateExpression e im t)))"
  "sourceFilesOK (externalSourceFiles (snd (translateStatement st im t)))"
proof -
  have ok0: "sourceFilesOK (externalSourceFiles newVisitor)"
    by (simp add: newVisitor_def sourceFilesOK_def)
  obtain r s' where e: "visitExpression im t e (Context False) newVisitor = (r, s')"
    by (cases "visitExpression im t e (Context False) newVisitor")
  from keepsCacheD [OF keepsCache_visit(1) e] ok0
  show "sourceFilesOK (externalSourceFiles (snd (translateExpression e im t)))"
    by (simp add: translateExpression_def e cacheStep_def)
  obtain r2 s2 where st: "visitStatement im t st (Context True) newVisitor = (r2, s2)"
    by (cases "visitStatement im t st (Context True) newVisitor")
  from keepsCacheD [OF keepsCache_visit(3) st] ok0
  show "sourceFilesOK (externalSourceFiles (snd (translateStatement st im t)))"
    by (simp add: translateStatement_def st cacheStep_def)
qed

lemma wrapped_node:
  "fst (visitExpression im t (WrappedNodeExpr n sp) ctx s) = Inr n"
  by (simp add: run_simps recordUsedIdentifier_def)

text \<open>
  C9, as the code has it: over any visit, and so over a run of either entry point, the map
  of source files keeps one descriptor for a URL, named by it, only grows at its end, and
  so gives for a URL it knew the descriptor it gave before; \<^verbatim>\<open>setSourceMapRange\<close> adds
  the descriptor of a non-empty URL when the map has none and changes nothing for a null
  span or an empty URL. The expressions whose method sets the range from their own span
  (read-variable, invoke-method, invoke-function, literal, localized string, literal array,
  literal map) come back with the offsets of the span and the map's descriptor for its URL
  when the span has a non-empty URL, and unmapped when they have no span or an empty URL.
  The node built for a write-variable, write-by-key, write-property, instantiate,
  external-reference, conditional, logical-not, function, unary-operator, binary-operator,
  read-property, read-by-key or typeof expression is unmapped whatever span the expression
  carries; a cast and an assert-not-null give what their operand gives, and a wrapped node
  comes back as it is.
\<close>

theorem source_map_cache:
  "(visitExpression im t e ctx s = (r, s') \<and> sourceFilesOK (externalSourceFiles s) \<longrightarrow>
      sourceFilesOK (externalSourceFiles s')
      \<and> prefix (externalSourceFiles s) (externalSourceFiles s')
      \<and> (\<forall>u d. map_of (externalSourceFiles s) u = Some d \<longrightarrow>
                 map_of (externalSourceFiles s') u = Some d)
      \<and> (\<forall>node. r = Inr node \<and> mapsOwnSpan e \<longrightarrow>
            sourceMapRange node = spanRange (sourceSpan e) s'
            \<and> (\<forall>sp. sourceSpan e = Some sp \<and> url (file (start sp)) \<noteq> [] \<longrightarrow>
                  (\<exists>d. map_of (externalSourceFiles s') (url (file (start sp))) = Some d
                        \<and> fileName d = url (file (start sp)))))
      \<and> (\<forall>node. r = Inr node \<and> buildsUnmappedNode e \<longrightarrow> sourceMapRange node = None))
   \<and> (visitStatement im t st ctx s = (r2, s2) \<and> sourceFilesOK (externalSourceFiles s) \<longrightarrow>
      sourceFilesOK (externalSourceFiles s2)
      \<and> prefix (externalSourceFiles s) (externalSourceFiles s2)
      \<and> (\<forall>u d. map_of (externalSourceFiles s) u = Some d \<longrightarrow>
                 map_of (externalSourceFiles s2) u = Some d))
   \<and> (setSourceMapRange n (Some sp0) s = (r0, s0) \<and> url (file (start sp0)) \<noteq> [] \<longrightarrow>
      externalSourceFiles s0
        = (if map_of (externalSourceFiles s) (url (file (start sp0))) = None
           then externalSourceFiles s
                @ [(url (file (start sp0)),
                    \<lparr>fileName = url (file (start sp0)),
                     sourceText = content (file (start sp0))\<rparr>)]
           else externalSourceFiles s))
   \<and> (setSourceMapRange n None s = (Inr n, s))
   \<and> (url (file (start sp0)) = [] \<longrightarrow> setSourceMapRange n (Some sp0) s = (Inr n, s))
   \<and> sourceFilesOK (externalSourceFiles (snd (translateExpression e im t)))
   \<and> sourceFilesOK (externalSourceFiles (snd (translateStatement st im t)))
   \<and> visitExpression im t (CastExpr e sp1) ctx s = visitExpression im t e ctx s
   \<and> visitExpression im t (AssertNotNull e sp1) ctx s = visitExpression im t e ctx s
   \<and> fst (visitExpression im t (WrappedNodeExpr n sp1) ctx s) = Inr n"
proof (intro conjI impI)
  assume a: "visitExpression im t e ctx s = (r, s') \<and> sourceFilesOK (externalSourceFiles s)"
  then have step: "cacheStep s s'"
    using keepsCacheD [OF keepsCache_visit(1)] by blast
  with a show ok': "sourceFilesOK (externalSourceFiles s')"
    and pre: "prefix (externalSourceFiles s) (externalSourceFiles s')"
    by (simp_all add: cacheStep_def)
  from pre show "\<forall>u d. map_of (externalSourceFiles s) u = Some d \<longrightarrow>
                        map_of (externalSourceFiles s') u = Some d"
    by (blast intro: prefix_map_of)
  show "\<forall>node. r = Inr node \<and> mapsOwnSpan e \<longrightarrow>
            sourceMapRange node = spanRange (sourceSpan e) s'
            \<and> (\<forall>sp. sourceSpan e = Some sp \<and> url (file (start sp)) \<noteq> [] \<longrightarrow>
                  (\<exists>d. map_of (externalSourceFiles s') (url (file (start sp))) = Some d
                        \<and> fileName d = url (file (start sp))))"
  proof (intro allI impI conjI)
    fix node
    assume b: "r = Inr node \<and> mapsOwnSpan e"
    with a have run: "visitExpression im t e ctx s = (Inr node, s')" by simp
    from own_range [OF run] b show "sourceMapRange node = spanRange (sourceSpan e) s'" by simp
    fix sp
    assume c: "sourceSpan e = Some sp \<and> url (file (start sp)) \<noteq> []"
    with own_descriptor [OF run] b obtain d where
      d: "map_of (externalSourceFiles s') (url (file (start sp))) = Some d" by auto
    with sourceFilesOK_map_of [OF ok'] have "fileName d = url (file (start sp))" by blast
    with d show "\<exists>d. map_of (externalSourceFiles s') (url (file (start sp))) = Some d
                      \<and> fileName d = url (file (start sp))" by blast
  qed
  show "\<forall>node. r = Inr node \<and> buildsUnmappedNode e \<longrightarrow> sourceMapRange node = None"
    using a unmapped_node by blast
next
  assume a: "visitStatement im t st ctx s = (r2, s2) \<and> sourceFilesOK (externalSourceFiles s)"
  then have step: "cacheStep s s2"
    using keepsCacheD [OF keepsCache_visit(3)] by blast
  with a show "sourceFilesOK (externalSourceFiles s2)"
    and pre: "prefix (externalSourceFiles s) (externalSourceFiles s2)"
    by (simp_all add: cacheStep_def)
  from pre show "\<forall>u d. map_of (externalSourceFiles s) u = Some d \<longrightarrow>
                        map_of (externalSourceFiles s2) u = Some d"
    by (blast intro: prefix_map_of)
next
  assume "setSourceMapRange n (Some sp0) s = (r0, s0) \<and> url (file (start sp0)) \<noteq> []"
  then show "externalSourceFiles s0
        = (if map_of (externalSourceFiles s) (url (file (start sp0))) = None
           then externalSourceFiles s
                @ [(url (file (start sp0)),
                    \<lparr>fileName = url (file (start sp0)),
                     sourceText = content (file (start sp0))\<rparr>)]
           else externalSourceFiles s)"
    using setSourceMapRange_files by blast
next
  show "setSourceMapRange n None s = (Inr n, s)" by simp
next
  assume "url (file (start sp0)) = []"
  then show "setSourceMapRange n (Some sp0) s = (Inr n, s)"
    by (simp add: setSourceMapRange_def)
next
  show "sourceFilesOK (externalSourceFiles (snd (translateExpression e im t)))"
    by (rule translate_sourceFilesOK)
next
  show "sourceFilesOK (externalSourceFiles (snd (translateStatement st im t)))"
    by (rule translate_sourceFilesOK)
next
  show "visitExpression im t (CastExpr e sp1) ctx s = visitExpression im t e ctx s" by simp
next
  show "visitExpression im t (AssertNotNull e sp1) ctx s = visitExpression im t e ctx s" by simp
next
  show "fst (visitExpression im t (WrappedNodeExpr n sp1) ctx s) = Inr n" by (rule wrapped_node)
qed

lemma run_arrayXY:
  "visitExpression noAlias ES2015 arrayXY (Context False) newVisitor = (Inr arrayNode, visitedA)"
  by (simp add: arrayXY_def arrayNode_def visitedA_def newVisitor_def spanX_def spanY_def
                fileA_def sourceA_def run_simps setSourceMapRange_def Let_def
                ts_setSourceMapRange_def ts_createSourceMapSource_def)

lemma run_return_arrayXY:
  "visitStatement noAlias ES2015 (ReturnStatement arrayXY None) (Context True) newVisitor
     = (Inr (ts_createReturn arrayNode), visitedA)"
  by (simp add: run_arrayXY withExpressionMode_def run_simps attachComments_def)

theorem source_map_cache_witness:
  "sourceFilesOK (externalSourceFiles newVisitor)
   \<and> visitExpression noAlias ES2015 arrayXY (Context False) newVisitor = (Inr arrayNode, visitedA)
   \<and> mapsOwnSpan arrayXY
   \<and> sourceSpan arrayXY = Some spanX
   \<and> url (file (start spanX)) = ''a.ts''
   \<and> externalSourceFiles visitedA = [(''a.ts'', sourceA)]
   \<and> sourceFilesOK (externalSourceFiles visitedA)
   \<and> sourceMapRange arrayNode = Some \<lparr>pos = 0, endPos = 1, source = Some sourceA\<rparr>
   \<and> fileName sourceA = ''a.ts''
   \<and> visitStatement noAlias ES2015 (ReturnStatement arrayXY None) (Context True) newVisitor
       = (Inr (ts_createReturn arrayNode), visitedA)
   \<and> setSourceMapRange (ts_createIdentifier ''y'') (Some spanY) visitedA
       = (Inr (Node (TsIdentifier ''y'') (Some \<lparr>pos = 4, endPos = 5, source = Some sourceA\<rparr>) []),
          visitedA)
   \<and> setSourceMapRange (ts_createIdentifier ''x'') (Some spanX) newVisitor
       = (Inr (Node (TsIdentifier ''x'') (Some \<lparr>pos = 0, endPos = 1, source = Some sourceA\<rparr>) []),
          visitedA)
   \<and> buildsUnmappedNode notX
   \<and> visitExpression noAlias ES2015 notX (Context False) newVisitor
       = (Inr (ts_createPrefix ExclamationToken (ts_createIdentifier ''x'')), newVisitor)
   \<and> sourceMapRange (ts_createPrefix ExclamationToken (ts_createIdentifier ''x'')) = None"
proof -
  have ok0: "sourceFilesOK (externalSourceFiles newVisitor)"
    by (simp add: newVisitor_def sourceFilesOK_def)
  have y: "setSourceMapRange (ts_createIdentifier ''y'') (Some spanY) visitedA
       = (Inr (Node (TsIdentifier ''y'') (Some \<lparr>pos = 4, endPos = 5, source = Some sourceA\<rparr>) []),
          visitedA)"
    by (simp add: visitedA_def spanY_def fileA_def sourceA_def setSourceMapRange_def Let_def
                  ts_setSourceMapRange_def)
  have x: "setSourceMapRange (ts_createIdentifier ''x'') (Some spanX) newVisitor
       = (Inr (Node (TsIdentifier ''x'') (Some \<lparr>pos = 0, endPos = 1, source = Some sourceA\<rparr>) []),
          visitedA)"
    by (simp add: visitedA_def newVisitor_def spanX_def fileA_def sourceA_def
                  setSourceMapRange_def Let_def ts_setSourceMapRange_def
                  ts_createSourceMapSource_def)
  note w = source_map_cache
             [where im = noAlias and t = ES2015 and e = arrayXY and ctx = "Context False"
                and s = newVisitor and r = "Inr arrayNode" and s' = visitedA
                and st = "ReturnStatement arrayXY None" and ?r2.0 = "Inr (ts_createReturn arrayNode)"
                and ?s2.0 = visitedA and n = "ts_createIdentifier ''x''" and ?sp0.0 = spanX
                and ?r0.0 = "Inr (Node (TsIdentifier ''x'')
                                   (Some \<lparr>pos = 0, endPos = 1, source = Some sourceA\<rparr>) [])"
                and ?s0.0 = visitedA]
  have m: "mapsOwnSpan arrayXY" "sourceSpan arrayXY = Some spanX"
    by (simp_all add: arrayXY_def)
  have u: "url (file (start spanX)) = ''a.ts''" by (simp add: spanX_def fileA_def)
  have f: "externalSourceFiles visitedA = [(''a.ts'', sourceA)]" by (simp add: visitedA_def)
  have n: "fileName sourceA = ''a.ts''" by (simp add: sourceA_def)
  from w ok0 run_arrayXY m have
    "sourceFilesOK (externalSourceFiles visitedA)"
    "sourceMapRange arrayNode = spanRange (Some spanX) visitedA"
    by auto
  moreover have "buildsUnmappedNode notX"
    and "visitExpression noAlias ES2015 notX (Context False) newVisitor
           = (Inr (ts_createPrefix ExclamationToken (ts_createIdentifier ''x'')), newVisitor)"
    by (simp_all add: notX_def run_simps)
  ultimately show ?thesis
    using ok0 run_arrayXY run_return_arrayXY m u f n x y
    by (simp add: spanRange_def spanX_def fileA_def visitedA_def)
qed

text \<open>
  The input on which C9 as stated fails: a logical-not expression carries a span, and its
  node comes back without a range.
\<close>

theorem unmapped_span_counterexample:
  "sourceSpan notX = Some spanX
   \<and> url (file (start spanX)) = ''a.ts''
   \<and> translateExpression notX noAlias ES2015
       = (Inr (ts_createPrefix ExclamationToken (ts_createIdentifier ''x'')), newVisitor)
   \<and> sourceMapRange (ts_createPrefix ExclamationToken (ts_createIdentifier ''x'')) = None"
  by (simp add: notX_def spanX_def fileA_def translateExpression_def run_simps)

section \<open>Conditional expressions\<close>











end
